theory Spec2Isabelle
  imports Main "HOL-Library.Word"
begin

unbundle bit_operations_syntax

section \<open>Data model of \<^verbatim>\<open>src/main.c\<close>\<close>

text \<open>
  The renderer is one C file that talks to the Vulkan driver. The model keeps the fields of
  \<^verbatim>\<open>renderer_t\<close> and \<^verbatim>\<open>window_t\<close> that the device, swapchain and frame code reads or
  writes, and records everything observable the code does (every \<^verbatim>\<open>printf\<close> and every
  Vulkan call) in a trace. \<^verbatim>\<open>exit(1)\<close> is a value of type \<open>halt\<close>.

  Machine integers: \<^verbatim>\<open>u32\<close> is \<open>32 word\<close>. The components of \<^verbatim>\<open>nh_vec2i_t\<close> are C
  \<^verbatim>\<open>int\<close>s; they are kept as their 32-bit patterns, so the cast \<^verbatim>\<open>(u32)size.x\<close> is the
  identity on the model's value. Handles are natural numbers.
\<close>

type_synonym u32 = "32 word"
type_synonym handle = nat
type_synonym VkResult = int
type_synonym VkFormat = int
type_synonym VkColorSpaceKHR = int

text \<open>Enumerators of \<^verbatim>\<open>vulkan_core.h\<close> that the code names, with the header's values.\<close>

definition VK_SUCCESS :: VkResult where
  "VK_SUCCESS = 0"

definition VK_SUBOPTIMAL_KHR :: VkResult where
  "VK_SUBOPTIMAL_KHR = 1000001003"

definition VK_ERROR_OUT_OF_DATE_KHR :: VkResult where
  "VK_ERROR_OUT_OF_DATE_KHR = - 1000001004"

definition VK_FORMAT_B8G8R8A8_SRGB :: VkFormat where
  "VK_FORMAT_B8G8R8A8_SRGB = 50"

definition VK_COLORSPACE_SRGB_NONLINEAR_KHR :: VkColorSpaceKHR where
  "VK_COLORSPACE_SRGB_NONLINEAR_KHR = 0"

definition VK_QUEUE_GRAPHICS_BIT :: u32 where
  "VK_QUEUE_GRAPHICS_BIT = 1"

datatype VkPhysicalDeviceType =
    VK_PHYSICAL_DEVICE_TYPE_OTHER
  | VK_PHYSICAL_DEVICE_TYPE_INTEGRATED_GPU
  | VK_PHYSICAL_DEVICE_TYPE_DISCRETE_GPU
  | VK_PHYSICAL_DEVICE_TYPE_VIRTUAL_GPU
  | VK_PHYSICAL_DEVICE_TYPE_CPU

datatype VkPresentModeKHR =
    VK_PRESENT_MODE_IMMEDIATE_KHR
  | VK_PRESENT_MODE_MAILBOX_KHR
  | VK_PRESENT_MODE_FIFO_KHR
  | VK_PRESENT_MODE_FIFO_RELAXED_KHR
  | VK_PRESENT_MODE_SHARED_DEMAND_REFRESH_KHR
  | VK_PRESENT_MODE_SHARED_CONTINUOUS_REFRESH_KHR

datatype VkSharingMode =
    VK_SHARING_MODE_EXCLUSIVE
  | VK_SHARING_MODE_CONCURRENT

record VkExtent2D =
  width :: u32
  height :: u32

record VkSurfaceCapabilitiesKHR =
  minImageCount :: u32
  maxImageCount :: u32
  currentExtent :: VkExtent2D
  minImageExtent :: VkExtent2D
  maxImageExtent :: VkExtent2D

record VkSurfaceFormatKHR =
  format :: VkFormat
  colorSpace :: VkColorSpaceKHR

record VkPhysicalDeviceProperties =
  deviceType :: VkPhysicalDeviceType
  deviceName :: string

record VkQueueFamilyProperties =
  queueFlags :: u32

text \<open>
  The create-info structures, with the fields the code sets from data (the constant
  fields \<^verbatim>\<open>sType\<close>, \<^verbatim>\<open>pNext\<close>, \<^verbatim>\<open>flags\<close>, ... are left out). A field whose C name
  is also a field of another structure carries the structure's name as a prefix.
  \<open>pQueueFamilyIndices\<close> is the array the pointer refers to, read over
  \<open>queueFamilyIndexCount\<close> entries; \<^verbatim>\<open>NULL\<close> is the empty list.
\<close>

record VkSwapchainCreateInfoKHR =
  cinfo_minImageCount :: u32
  imageFormat :: "VkFormat option"
  imageColorSpace :: "VkColorSpaceKHR option"
  imageExtent :: VkExtent2D
  imageSharingMode :: VkSharingMode
  queueFamilyIndexCount :: u32
  pQueueFamilyIndices :: "u32 list"
  presentMode :: "VkPresentModeKHR option"

record VkImageViewCreateInfo =
  image :: "handle option"
  view_format :: "VkFormat option"

record VkFramebufferCreateInfo =
  pAttachments :: "handle option"
  fb_width :: u32
  fb_height :: u32

subsection \<open>The trace\<close>

datatype printf_arg = Arg_str string | Arg_int int | Arg_u32 u32

text \<open>
  A Vulkan call is recorded by its name and those of its arguments that the code computes
  (handles read from the arrays, queue family indices, create-infos, extents, draw counts).
\<close>

datatype vk_arg =
    Handle "handle option"
  | Word u32
  | Extent VkExtent2D
  | Count nat
  | Swapchain_cinfo VkSwapchainCreateInfoKHR
  | Image_view_cinfo VkImageViewCreateInfo
  | Framebuffer_cinfo VkFramebufferCreateInfo

datatype event = Printf string "printf_arg list" | Call string "vk_arg list"

datatype halt = Exit (exit_status: int) (exit_trace: "event list")

subsection \<open>The driver\<close>

text \<open>
  What the Vulkan driver answers, as far as the code looks at it: for each call its
  \<^verbatim>\<open>VkResult\<close> and what it writes through the output pointers. One value of this record is
  the driver's behaviour during one call of \<^verbatim>\<open>create_renderer\<close> or \<^verbatim>\<open>renderer_draw\<close>; the
  instance, surface and device handles the code passes are the same in every call and
  are not arguments here. The code stores what the driver wrote whatever the result code
  is, so the result and the output are independent components.

  An enumeration is called twice (count, then fill); both calls give the same answer.
  \<open>drv_swapchain_images sc\<close> is the result code, the image count the driver reports for
  the swapchain \<open>sc\<close>, and the image it writes at each index.
\<close>

record vk_driver =
  drv_physical_devices :: "VkResult \<times> handle list"
  drv_physical_device_properties :: "handle option \<Rightarrow> VkPhysicalDeviceProperties"
  drv_queue_families :: "VkQueueFamilyProperties list"
  drv_surface_support :: "nat \<Rightarrow> bool"
  drv_device_extensions :: "VkResult \<times> string list"
  drv_create_device :: "VkResult \<times> handle"
  drv_surface_formats :: "VkResult \<times> VkSurfaceFormatKHR list"
  drv_present_modes :: "VkResult \<times> VkPresentModeKHR list"
  drv_surface_caps :: "VkResult \<times> VkSurfaceCapabilitiesKHR"
  drv_create_swapchain :: "VkSwapchainCreateInfoKHR \<Rightarrow> VkResult \<times> handle"
  drv_swapchain_images :: "handle \<Rightarrow> VkResult \<times> u32 \<times> (nat \<Rightarrow> handle)"
  drv_create_image_view :: "VkImageViewCreateInfo \<Rightarrow> VkResult \<times> handle"
  drv_create_framebuffer :: "VkFramebufferCreateInfo \<Rightarrow> VkResult \<times> handle"
  drv_acquire_next_image :: "VkResult \<times> u32"
  drv_begin_command_buffer :: VkResult
  drv_end_command_buffer :: VkResult
  drv_queue_submit :: VkResult
  drv_queue_present :: VkResult

subsection \<open>The window and the renderer\<close>

text \<open>
  \<^verbatim>\<open>nh_vec2i_t\<close> is declared in \<^verbatim>\<open>nh_vector.h\<close>; the code uses its two \<^verbatim>\<open>int\<close> components
  \<^verbatim>\<open>x\<close> and \<^verbatim>\<open>y\<close>. \<^verbatim>\<open>window_t.size\<close> is \<open>win_size\<close> here.
\<close>

record nh_vec2i_t =
  vec_x :: u32
  vec_y :: u32

record window_t =
  running :: bool
  win_size :: nh_vec2i_t
  ticks :: "64 word"
  resized :: bool

text \<open>\<open>indices\<close> is the array \<^verbatim>\<open>u32 indices[2]\<close>, as the pair of its entries 0 and 1.\<close>

record queue_family_indices_t =
  graphics_family :: u32
  present_family :: u32
  indices :: "u32 \<times> u32"

record surface_info_t =
  surface_caps :: VkSurfaceCapabilitiesKHR
  surface_format :: "VkSurfaceFormatKHR option"
  present_mode :: "VkPresentModeKHR option"

text \<open>
  The arrays \<^verbatim>\<open>swapchain_images\<close>, \<^verbatim>\<open>swapchain_image_views\<close> and
  \<^verbatim>\<open>swapchain_framebuffers\<close> are lists as long as their allocation. A field of option type
  is \<open>None\<close> when the code assigned it an indeterminate value (an element read past the
  end of an array). \<open>trace\<close> is not a C field: it is what the process has printed and
  called so far.
\<close>

record renderer_t =
  window :: window_t
  physical_device :: "handle option"
  device :: handle
  queue_family_indices :: queue_family_indices_t
  surface_info :: surface_info_t
  swapchain_extent :: VkExtent2D
  swapchain :: handle
  swapchain_image_count :: u32
  swapchain_images :: "handle list"
  swapchain_image_views :: "handle list"
  swapchain_framebuffers :: "handle list"
  trace :: "event list"

subsection \<open>Primitives\<close>

definition printf :: "string \<Rightarrow> printf_arg list \<Rightarrow> renderer_t \<Rightarrow> renderer_t" where
  "printf fmt args r = r\<lparr>trace := trace r @ [Printf fmt args]\<rparr>"

definition call :: "string \<Rightarrow> vk_arg list \<Rightarrow> renderer_t \<Rightarrow> renderer_t" where
  "call f args r = r\<lparr>trace := trace r @ [Call f args]\<rparr>"

text \<open>
  \<^verbatim>\<open>#define VK_CHECK(expr) do{VkResult r=(expr);if(r!=VK_SUCCESS){printf("ERROR %d: %s\n",r,#expr);}}while(0)\<close>

  The first argument is the value of \<^verbatim>\<open>expr\<close>, the second its text (\<^verbatim>\<open>#expr\<close>).
\<close>

definition VK_CHECK :: "VkResult \<Rightarrow> string \<Rightarrow> renderer_t \<Rightarrow> renderer_t" where
  "VK_CHECK res expr r =
     (if res \<noteq> VK_SUCCESS then printf ''ERROR %d: %s\<newline>'' [Arg_int res, Arg_str expr] r else r)"

text \<open>
  Reading element \<open>i\<close> of an array: \<open>None\<close> is the indeterminate value of a read past
  the end of the allocation.
\<close>

definition arena_read :: "'a list \<Rightarrow> nat \<Rightarrow> 'a option" where
  "arena_read xs i = (if i < length xs then Some (xs ! i) else None)"

text \<open>
  Modelled from the spec: \<^verbatim>\<open>NH_CLAMP\<close> is a macro of \<^verbatim>\<open>nh_base.h\<close>, which is not part of
  the source tree; the specification says the code uses it to "clamp the window's reported
  pixel size into [min extent, max extent] component-wise". The arguments are \<^verbatim>\<open>u32\<close>
  values, so the comparisons are unsigned.
\<close>

definition NH_CLAMP :: "u32 \<Rightarrow> u32 \<Rightarrow> u32 \<Rightarrow> u32" where
  "NH_CLAMP v lo hi = (if v < lo then lo else if hi < v then hi else v)"

section \<open>\<^verbatim>\<open>renderer_create_swapchain\<close>\<close>

text \<open>
  The search loops of lines 659-666 and 689-694. Each takes the array, the loop index and
  the current value of what the loop assigns, and returns the value after the loop. The
  format loop sets \<^verbatim>\<open>found_format\<close>; the present-mode loop assigns no flag.
\<close>

function look_for_format ::
  "VkSurfaceFormatKHR list \<Rightarrow> nat \<Rightarrow> VkSurfaceFormatKHR option \<times> bool \<Rightarrow>
   VkSurfaceFormatKHR option \<times> bool" where
  "look_for_format surface_formats i st =
     (if i < length surface_formats then
        (if format (surface_formats ! i) = VK_FORMAT_B8G8R8A8_SRGB
            \<and> colorSpace (surface_formats ! i) = VK_COLORSPACE_SRGB_NONLINEAR_KHR
         then (Some (surface_formats ! i), True)
         else look_for_format surface_formats (i + 1) st)
      else st)"
  by pat_completeness auto
termination
  by (relation "measure (\<lambda>(fs, i, st). length fs - i)") auto

declare look_for_format.simps [simp del]

function look_for_present_mode ::
  "VkPresentModeKHR list \<Rightarrow> nat \<Rightarrow> VkPresentModeKHR option \<Rightarrow> VkPresentModeKHR option" where
  "look_for_present_mode present_modes i pm =
     (if i < length present_modes then
        (if present_modes ! i = VK_PRESENT_MODE_FIFO_KHR
         then Some (present_modes ! i)
         else look_for_present_mode present_modes (i + 1) pm)
      else pm)"
  by pat_completeness auto
termination
  by (relation "measure (\<lambda>(ms, i, pm). length ms - i)") auto

declare look_for_present_mode.simps [simp del]

text \<open>Lines 641-669: the surface formats and the format chosen.\<close>

definition swapchain_surface_format :: "vk_driver \<Rightarrow> renderer_t \<Rightarrow> renderer_t" where
  "swapchain_surface_format drv r =
     (let found_format = False;
          (res, surface_formats) = drv_surface_formats drv;
          r = call ''vkGetPhysicalDeviceSurfaceFormatsKHR'' [] r;
          r = VK_CHECK res ''vkGetPhysicalDeviceSurfaceFormatsKHR( renderer->physical_device, renderer->surface, &surface_format_count, NULL )'' r;
          r = call ''vkGetPhysicalDeviceSurfaceFormatsKHR'' [] r;
          r = VK_CHECK res ''vkGetPhysicalDeviceSurfaceFormatsKHR( renderer->physical_device, renderer->surface, &surface_format_count, surface_formats )'' r;
          (sf, found_format) =
             look_for_format surface_formats 0 (surface_format (surface_info r), found_format);
          sf = (if \<not> found_format then arena_read surface_formats 0 else sf)
      in r\<lparr>surface_info := (surface_info r)\<lparr>surface_format := sf\<rparr>\<rparr>)"

text \<open>
  Lines 671-697: the present modes and the mode chosen. \<^verbatim>\<open>found_mode\<close> is initialised to
  \<^verbatim>\<open>false\<close> at line 636 and never assigned.
\<close>

definition swapchain_present_mode :: "vk_driver \<Rightarrow> renderer_t \<Rightarrow> renderer_t" where
  "swapchain_present_mode drv r =
     (let found_mode = False;
          (res, present_modes) = drv_present_modes drv;
          r = call ''vkGetPhysicalDeviceSurfacePresentModesKHR'' [] r;
          r = VK_CHECK res ''vkGetPhysicalDeviceSurfacePresentModesKHR( renderer->physical_device, renderer->surface, &present_mode_count, NULL )'' r;
          r = call ''vkGetPhysicalDeviceSurfacePresentModesKHR'' [] r;
          r = VK_CHECK res ''vkGetPhysicalDeviceSurfacePresentModesKHR( renderer->physical_device, renderer->surface, &present_mode_count, present_modes )'' r;
          pm = look_for_present_mode present_modes 0 (present_mode (surface_info r));
          pm = (if \<not> found_mode then arena_read present_modes 0 else pm)
      in r\<lparr>surface_info := (surface_info r)\<lparr>present_mode := pm\<rparr>\<rparr>)"

text \<open>Lines 699-704: the surface capabilities.\<close>

definition swapchain_surface_caps :: "vk_driver \<Rightarrow> renderer_t \<Rightarrow> renderer_t" where
  "swapchain_surface_caps drv r =
     (let (res, caps) = drv_surface_caps drv;
          r = call ''vkGetPhysicalDeviceSurfaceCapabilitiesKHR'' [] r;
          r = r\<lparr>surface_info := (surface_info r)\<lparr>surface_caps := caps\<rparr>\<rparr>
      in VK_CHECK res ''vkGetPhysicalDeviceSurfaceCapabilitiesKHR( renderer->physical_device, renderer->surface, &renderer->surface_info.surface_caps )'' r)"

text \<open>Lines 706-714: the image count, from the capabilities.\<close>

definition set_image_count :: "VkSurfaceCapabilitiesKHR \<Rightarrow> u32" where
  "set_image_count caps =
     (let swapchain_image_count = minImageCount caps + 1
      in if maxImageCount caps > 0 \<and> maxImageCount caps < minImageCount caps
         then maxImageCount caps
         else swapchain_image_count)"

text \<open>Lines 715-733: the extent, from the capabilities and the window's size.\<close>

definition set_extent :: "VkSurfaceCapabilitiesKHR \<Rightarrow> nh_vec2i_t \<Rightarrow> VkExtent2D" where
  "set_extent caps sz =
     (if width (currentExtent caps) = 0xFFFFFFFF then currentExtent caps
      else \<lparr>width = NH_CLAMP (vec_x sz) (width (minImageExtent caps)) (width (maxImageExtent caps)),
            height = NH_CLAMP (vec_y sz) (height (minImageExtent caps)) (height (maxImageExtent caps))\<rparr>)"

text \<open>Lines 740-767: the create-info, from the renderer's fields.\<close>

definition set_swapchain_info :: "renderer_t \<Rightarrow> VkSwapchainCreateInfoKHR" where
  "set_swapchain_info r =
     (let exclusive = (present_family (queue_family_indices r)
                        = graphics_family (queue_family_indices r))
      in \<lparr>cinfo_minImageCount = minImageCount (surface_caps (surface_info r)),
          imageFormat = map_option format (surface_format (surface_info r)),
          imageColorSpace = map_option colorSpace (surface_format (surface_info r)),
          imageExtent = currentExtent (surface_caps (surface_info r)),
          imageSharingMode =
            (if exclusive then VK_SHARING_MODE_EXCLUSIVE else VK_SHARING_MODE_CONCURRENT),
          queueFamilyIndexCount = (if exclusive then 0 else 2),
          pQueueFamilyIndices =
            (if exclusive then []
             else [fst (indices (queue_family_indices r)),
                   snd (indices (queue_family_indices r))]),
          presentMode = present_mode (surface_info r)\<rparr>)"

definition renderer_create_swapchain :: "vk_driver \<Rightarrow> renderer_t \<Rightarrow> renderer_t" where
  "renderer_create_swapchain drv r =
     (let r = printf ''INFO: Creating swapchain...\<newline>'' [] r;
          r = swapchain_surface_format drv r;
          r = swapchain_present_mode drv r;
          r = swapchain_surface_caps drv r;
          r = r\<lparr>swapchain_image_count := set_image_count (surface_caps (surface_info r))\<rparr>;
          r = r\<lparr>swapchain_extent :=
                 set_extent (surface_caps (surface_info r)) (win_size (window r))\<rparr>;
          r = printf ''INFO: Initial extent: %d x %d\<newline>''
                [Arg_u32 (width (swapchain_extent r)), Arg_u32 (height (swapchain_extent r))] r;
          swapchain_cinfo = set_swapchain_info r;
          (res, sc) = drv_create_swapchain drv swapchain_cinfo;
          r = call ''vkCreateSwapchainKHR'' [Swapchain_cinfo swapchain_cinfo] r;
          r = r\<lparr>swapchain := sc\<rparr>
      in VK_CHECK res ''vkCreateSwapchainKHR( renderer->device, &swapchain_cinfo, NULL, &renderer->swapchain )'' r)"

section \<open>Device selection and device creation\<close>

definition exit :: "int \<Rightarrow> renderer_t \<Rightarrow> halt + renderer_t" where
  "exit status r = Inl (Exit status (trace r))"

text \<open>
  The loops of lines 408-424 and 427-443 differ only in the device type they compare
  with; \<open>ty\<close> is that constant. The result says whether the loop took its \<^verbatim>\<open>return\<close>.
\<close>

function check_for_device_type ::
  "vk_driver \<Rightarrow> VkPhysicalDeviceType \<Rightarrow> handle list \<Rightarrow> nat \<Rightarrow> renderer_t \<Rightarrow> bool \<times> renderer_t" where
  "check_for_device_type drv ty physical_devices i r =
     (if i < length physical_devices then
        (let physical_device_properties =
               drv_physical_device_properties drv (Some (physical_devices ! i));
             r = call ''vkGetPhysicalDeviceProperties'' [Handle (Some (physical_devices ! i))] r
         in if deviceType physical_device_properties = ty
            then (True,
                  printf ''INFO: Selected device: %s\<newline>''
                    [Arg_str (deviceName physical_device_properties)]
                    (r\<lparr>physical_device := Some (physical_devices ! i)\<rparr>))
            else check_for_device_type drv ty physical_devices (i + 1) r)
      else (False, r))"
  by pat_completeness auto
termination
  by (relation "measure (\<lambda>(drv, ty, ds, i, r). length ds - i)") auto

declare check_for_device_type.simps [simp del]

definition renderer_pick_physical_device :: "vk_driver \<Rightarrow> renderer_t \<Rightarrow> renderer_t" where
  "renderer_pick_physical_device drv r =
     (let (res, physical_devices) = drv_physical_devices drv;
          r = call ''vkEnumeratePhysicalDevices'' [] r;
          r = VK_CHECK res ''vkEnumeratePhysicalDevices( renderer->instance, &physical_device_count, NULL )'' r;
          r = call ''vkEnumeratePhysicalDevices'' [] r;
          r = VK_CHECK res ''vkEnumeratePhysicalDevices( renderer->instance, &physical_device_count, physical_devices )'' r;
          (selected, r) =
             check_for_device_type drv VK_PHYSICAL_DEVICE_TYPE_DISCRETE_GPU physical_devices 0 r
      in if selected then r
         else
          (let (selected, r) =
                 check_for_device_type drv VK_PHYSICAL_DEVICE_TYPE_INTEGRATED_GPU
                   physical_devices 0 r
           in if selected then r
              else
               (let r = r\<lparr>physical_device := arena_read physical_devices 0\<rparr>;
                    physical_device_properties =
                      drv_physical_device_properties drv (physical_device r);
                    r = call ''vkGetPhysicalDeviceProperties'' [Handle (physical_device r)] r
                in printf ''INFO: Selected device: %s\<newline>''
                     [Arg_str (deviceName physical_device_properties)] r)))"

text \<open>
  Lines 494-506, the two tests of one loop iteration. Each writes the family field, prints,
  and writes its entry of \<^verbatim>\<open>indices\<close>; the loop sets the flag.
\<close>

definition present_family_found :: "u32 \<Rightarrow> renderer_t \<Rightarrow> renderer_t" where
  "present_family_found i r =
     (let r = r\<lparr>queue_family_indices := (queue_family_indices r)\<lparr>present_family := i\<rparr>\<rparr>;
          r = printf ''INFO: Present queue family found\<newline>'' [] r
      in r\<lparr>queue_family_indices := (queue_family_indices r)
             \<lparr>indices := (fst (indices (queue_family_indices r)), i)\<rparr>\<rparr>)"

definition graphics_family_found :: "u32 \<Rightarrow> renderer_t \<Rightarrow> renderer_t" where
  "graphics_family_found i r =
     (let r = r\<lparr>queue_family_indices := (queue_family_indices r)\<lparr>graphics_family := i\<rparr>\<rparr>;
          r = printf ''INFO: Graphics queue family found\<newline>'' [] r
      in r\<lparr>queue_family_indices := (queue_family_indices r)
             \<lparr>indices := (i, snd (indices (queue_family_indices r)))\<rparr>\<rparr>)"

text \<open>
  The loop of lines 485-507. The state is (\<^verbatim>\<open>graphics_found\<close>, \<^verbatim>\<open>present_found\<close>, the
  renderer). The loop has no \<^verbatim>\<open>break\<close>.
\<close>

function find_queue_families_loop ::
  "vk_driver \<Rightarrow> VkQueueFamilyProperties list \<Rightarrow> nat \<Rightarrow> bool \<times> bool \<times> renderer_t \<Rightarrow>
   bool \<times> bool \<times> renderer_t" where
  "find_queue_families_loop drv queue_families i st =
     (if i < length queue_families then
        (let graphics_found = fst st;
             present_found = fst (snd st);
             r = snd (snd st);
             r = call ''vkGetPhysicalDeviceSurfaceSupportKHR'' [Word (of_nat i)] r;
             present_support = drv_surface_support drv i;
             r = (if present_support then present_family_found (of_nat i) r else r);
             present_found = (if present_support then True else present_found);
             is_graphics = (queueFlags (queue_families ! i) AND VK_QUEUE_GRAPHICS_BIT \<noteq> 0);
             r = (if is_graphics then graphics_family_found (of_nat i) r else r);
             graphics_found = (if is_graphics then True else graphics_found)
         in find_queue_families_loop drv queue_families (i + 1)
              (graphics_found, present_found, r))
      else st)"
  by pat_completeness auto
termination
  by (relation "measure (\<lambda>(drv, qfs, i, st). length qfs - i)") auto

declare find_queue_families_loop.simps [simp del]

definition renderer_find_queue_families :: "vk_driver \<Rightarrow> renderer_t \<Rightarrow> halt + renderer_t" where
  "renderer_find_queue_families drv r =
     (let graphics_found = False;
          present_found = False;
          r = printf ''INFO: Finding queue families...\<newline>'' [] r;
          queue_families = drv_queue_families drv;
          r = call ''vkGetPhysicalDeviceQueueFamilyProperties'' [] r;
          r = call ''vkGetPhysicalDeviceQueueFamilyProperties'' [] r;
          st = find_queue_families_loop drv queue_families 0 (graphics_found, present_found, r);
          graphics_found = fst st;
          present_found = fst (snd st);
          r = snd (snd st)
      in if \<not> graphics_found
         then exit 1 (printf ''ERROR: Graphics queue family not found\<newline>'' [] r)
         else if \<not> present_found
         then exit 1 (printf ''ERROR: Present queue family not found\<newline>'' [] r)
         else Inr r)"

text \<open>
  \<^verbatim>\<open>dev_extensions\<close> holds \<^verbatim>\<open>VK_KHR_SWAPCHAIN_EXTENSION_NAME\<close>, which the Vulkan header
  defines as the string below.
\<close>

definition dev_extensions :: "string list" where
  "dev_extensions = [''VK_KHR_swapchain'']"

definition NUM_DEV_EXTS :: nat where
  "NUM_DEV_EXTS = 1"

function print_device_extensions :: "nat \<Rightarrow> renderer_t \<Rightarrow> renderer_t" where
  "print_device_extensions i r =
     (if i < NUM_DEV_EXTS then
        print_device_extensions (i + 1)
          (printf ''INFO: Using device extension %d: %s\<newline>''
             [Arg_u32 (of_nat i), Arg_str (dev_extensions ! i)] r)
      else r)"
  by pat_completeness auto
termination
  by (relation "measure (\<lambda>(i, r). NUM_DEV_EXTS - i)") auto

declare print_device_extensions.simps [simp del]

text \<open>The inner loop of lines 556-563: the value of \<^verbatim>\<open>j\<close> after it.\<close>

function find_extension :: "string \<Rightarrow> string list \<Rightarrow> nat \<Rightarrow> nat" where
  "find_extension name extensions_supported j =
     (if j < length extensions_supported then
        (if name = extensions_supported ! j then j
         else find_extension name extensions_supported (j + 1))
      else j)"
  by pat_completeness auto
termination
  by (relation "measure (\<lambda>(name, es, j). length es - j)") auto

declare find_extension.simps [simp del]

function check_device_extensions :: "string list \<Rightarrow> nat \<Rightarrow> renderer_t \<Rightarrow> halt + renderer_t" where
  "check_device_extensions extensions_supported i r =
     (if i < NUM_DEV_EXTS then
        (let j = find_extension (dev_extensions ! i) extensions_supported 0
         in if j = length extensions_supported
            then exit 1 (printf ''ERROR: Device extension %s not supported\<newline>''
                           [Arg_str (dev_extensions ! i)] r)
            else check_device_extensions extensions_supported (i + 1) r)
      else Inr r)"
  by pat_completeness auto
termination
  by (relation "measure (\<lambda>(es, i, r). NUM_DEV_EXTS - i)") auto

declare check_device_extensions.simps [simp del]

text \<open>
  \<^verbatim>\<open>renderer_create_logical_device\<close>. The call of \<^verbatim>\<open>vkCreateDevice\<close> is recorded with the
  queue family index of each of its two queue create-infos.
\<close>

definition renderer_create_logical_device :: "vk_driver \<Rightarrow> renderer_t \<Rightarrow> halt + renderer_t" where
  "renderer_create_logical_device drv r =
     (let r = printf ''INFO: Creating logical device...\<newline>'' [] r;
          (res, extensions_supported) = drv_device_extensions drv;
          r = call ''vkEnumerateDeviceExtensionProperties'' [] r;
          r = VK_CHECK res ''vkEnumerateDeviceExtensionProperties( renderer->physical_device, NULL, &extensions_supported_count, NULL )'' r;
          r = call ''vkEnumerateDeviceExtensionProperties'' [] r;
          r = VK_CHECK res ''vkEnumerateDeviceExtensionProperties( renderer->physical_device, NULL, &extensions_supported_count, extensions_supported )'' r;
          r = print_device_extensions 0 r
      in case check_device_extensions extensions_supported 0 r of
           Inl h \<Rightarrow> Inl h
         | Inr r \<Rightarrow>
            (let (res, dev) = drv_create_device drv;
                 r = call ''vkCreateDevice''
                       [Word (graphics_family (queue_family_indices r)),
                        Word (present_family (queue_family_indices r))] r;
                 r = r\<lparr>device := dev\<rparr>
             in Inr (VK_CHECK res ''vkCreateDevice( renderer->physical_device, &device_cinfo, NULL, &renderer->device )'' r)))"

text \<open>\<^verbatim>\<open>renderer_create_queues\<close>; the two queue handles are not kept in the model.\<close>

definition renderer_create_queues :: "renderer_t \<Rightarrow> renderer_t" where
  "renderer_create_queues r =
     (let r = printf ''INFO: Creating queues...\<newline>'' [] r;
          r = call ''vkGetDeviceQueue'' [Word (graphics_family (queue_family_indices r)), Word 0] r
      in call ''vkGetDeviceQueue'' [Word (present_family (queue_family_indices r)), Word 0] r)"

section \<open>Swapchain images, image views and framebuffers\<close>

text \<open>
  Modelled from the spec: \<^verbatim>\<open>nh_arena_alloc\<close> belongs to \<^verbatim>\<open>nh_arena.h\<close>, which is not part
  of the source tree; the specification describes it as a bump allocator whose blocks are
  freed together at teardown. A block of \<open>n\<close> handles is a list of length \<open>n\<close>. Its initial
  content is unspecified in C; the model writes \<^verbatim>\<open>VK_NULL_HANDLE\<close> (0) there, and the loops
  below overwrite every entry. The arena is taken to have room for every block asked of it.
\<close>

definition nh_arena_alloc :: "nat \<Rightarrow> handle list" where
  "nh_arena_alloc n = replicate n 0"

text \<open>Lines 808-823: the create-info of the view of image \<open>i\<close>.\<close>

definition set_image_view_cinfo :: "renderer_t \<Rightarrow> nat \<Rightarrow> VkImageViewCreateInfo" where
  "set_image_view_cinfo r i =
     \<lparr>image = arena_read (swapchain_images r) i,
      view_format = map_option format (surface_format (surface_info r))\<rparr>"

text \<open>The loop of lines 807-830.\<close>

function create_image_views_loop :: "vk_driver \<Rightarrow> nat \<Rightarrow> renderer_t \<Rightarrow> renderer_t" where
  "create_image_views_loop drv i r =
     (if i < unat (swapchain_image_count r) then
        (let image_view_cinfo = set_image_view_cinfo r i;
             res = fst (drv_create_image_view drv image_view_cinfo);
             view = snd (drv_create_image_view drv image_view_cinfo)
         in create_image_views_loop drv (i + 1)
              (VK_CHECK res ''vkCreateImageView( renderer->device, &image_view_cinfo, NULL, &renderer->swapchain_image_views[i] )''
                 ((call ''vkCreateImageView'' [Image_view_cinfo image_view_cinfo] r)
                    \<lparr>swapchain_image_views := (swapchain_image_views r)[i := view]\<rparr>)))
      else r)"
  by pat_completeness auto
termination
  by (relation "measure (\<lambda>(drv, i, r). unat (swapchain_image_count r) - i)")
     (auto simp: VK_CHECK_def printf_def call_def)

declare create_image_views_loop.simps [simp del]

text \<open>
  \<^verbatim>\<open>renderer_get_swapchain_images\<close>. The first call of \<^verbatim>\<open>vkGetSwapchainImagesKHR\<close> writes the
  count, the second writes that many images into the new array and the count again.
\<close>

definition renderer_get_swapchain_images :: "vk_driver \<Rightarrow> renderer_t \<Rightarrow> renderer_t" where
  "renderer_get_swapchain_images drv r =
     (let r = printf ''INFO: Getting swapchain images...\<newline>'' [] r;
          (res, n, image_at) = drv_swapchain_images drv (swapchain r);
          r = call ''vkGetSwapchainImagesKHR'' [Handle (Some (swapchain r))] r;
          r = r\<lparr>swapchain_image_count := n\<rparr>;
          r = VK_CHECK res ''vkGetSwapchainImagesKHR( renderer->device, renderer->swapchain, &renderer->swapchain_image_count, NULL )'' r;
          r = r\<lparr>swapchain_images := nh_arena_alloc (unat (swapchain_image_count r))\<rparr>;
          r = call ''vkGetSwapchainImagesKHR'' [Handle (Some (swapchain r))] r;
          r = r\<lparr>swapchain_images := map image_at [0..<length (swapchain_images r)],
                swapchain_image_count := n\<rparr>;
          r = VK_CHECK res ''vkGetSwapchainImagesKHR( renderer->device, renderer->swapchain, &renderer->swapchain_image_count, renderer->swapchain_images )'' r;
          r = r\<lparr>swapchain_image_views := nh_arena_alloc (unat (swapchain_image_count r))\<rparr>
      in create_image_views_loop drv 0 r)"

text \<open>Lines 1149-1158: the create-info of framebuffer \<open>i\<close>.\<close>

definition set_framebuffer_cinfo :: "renderer_t \<Rightarrow> nat \<Rightarrow> VkFramebufferCreateInfo" where
  "set_framebuffer_cinfo r i =
     \<lparr>pAttachments = arena_read (swapchain_image_views r) i,
      fb_width = width (swapchain_extent r),
      fb_height = height (swapchain_extent r)\<rparr>"

text \<open>The loop of lines 1147-1165.\<close>

function create_framebuffers_loop :: "vk_driver \<Rightarrow> nat \<Rightarrow> renderer_t \<Rightarrow> renderer_t" where
  "create_framebuffers_loop drv i r =
     (if i < unat (swapchain_image_count r) then
        (let framebuffer_cinfo = set_framebuffer_cinfo r i;
             res = fst (drv_create_framebuffer drv framebuffer_cinfo);
             fb = snd (drv_create_framebuffer drv framebuffer_cinfo)
         in create_framebuffers_loop drv (i + 1)
              (VK_CHECK res ''vkCreateFramebuffer( renderer->device, &framebuffer_cinfo, NULL, &renderer->swapchain_framebuffers[i] )''
                 ((call ''vkCreateFramebuffer'' [Framebuffer_cinfo framebuffer_cinfo] r)
                    \<lparr>swapchain_framebuffers := (swapchain_framebuffers r)[i := fb]\<rparr>)))
      else r)"
  by pat_completeness auto
termination
  by (relation "measure (\<lambda>(drv, i, r). unat (swapchain_image_count r) - i)")
     (auto simp: VK_CHECK_def printf_def call_def)

declare create_framebuffers_loop.simps [simp del]

definition renderer_create_framebuffers :: "vk_driver \<Rightarrow> renderer_t \<Rightarrow> renderer_t" where
  "renderer_create_framebuffers drv r =
     (let r = printf ''INFO: Creating framebuffers...\<newline>'' [] r;
          r = r\<lparr>swapchain_framebuffers := nh_arena_alloc (unat (swapchain_image_count r))\<rparr>
      in create_framebuffers_loop drv 0 r)"

section \<open>The frame\<close>

text \<open>
  \<^verbatim>\<open>renderer_record_command_buffer\<close>. The viewport and the scissor are computed from
  \<^verbatim>\<open>swapchain_extent\<close>; the calls are recorded with that extent, and the two fields
  \<^verbatim>\<open>viewport\<close> and \<^verbatim>\<open>scissor\<close> are not kept in the model.
\<close>

definition renderer_record_command_buffer :: "vk_driver \<Rightarrow> renderer_t \<Rightarrow> u32 \<Rightarrow> renderer_t" where
  "renderer_record_command_buffer drv r image_index =
     (let r = call ''vkBeginCommandBuffer'' [] r;
          r = VK_CHECK (drv_begin_command_buffer drv) ''vkBeginCommandBuffer( renderer->command_buffer, &command_buffer_binfo )'' r;
          r = call ''vkCmdBeginRenderPass''
                [Handle (arena_read (swapchain_framebuffers r) (unat image_index)),
                 Extent (swapchain_extent r)] r;
          r = call ''vkCmdBindPipeline'' [] r;
          r = call ''vkCmdSetViewport'' [Extent (swapchain_extent r)] r;
          r = call ''vkCmdSetScissor'' [Extent (swapchain_extent r)] r;
          r = call ''vkCmdDraw'' [Count 3, Count 1, Count 0, Count 0] r;
          r = call ''vkCmdEndRenderPass'' [] r;
          r = call ''vkEndCommandBuffer'' [] r
      in VK_CHECK (drv_end_command_buffer drv) ''vkEndCommandBuffer(renderer->command_buffer)'' r)"

text \<open>The two destroy loops of lines 1471-1476 (and 1538-1543).\<close>

function destroy_framebuffers_loop :: "nat \<Rightarrow> renderer_t \<Rightarrow> renderer_t" where
  "destroy_framebuffers_loop i r =
     (if i < unat (swapchain_image_count r) then
        destroy_framebuffers_loop (i + 1)
          (call ''vkDestroyFramebuffer'' [Handle (arena_read (swapchain_framebuffers r) i)] r)
      else r)"
  by pat_completeness auto
termination
  by (relation "measure (\<lambda>(i, r). unat (swapchain_image_count r) - i)")
     (auto simp: call_def)

declare destroy_framebuffers_loop.simps [simp del]

function destroy_image_views_loop :: "nat \<Rightarrow> renderer_t \<Rightarrow> renderer_t" where
  "destroy_image_views_loop i r =
     (if i < unat (swapchain_image_count r) then
        destroy_image_views_loop (i + 1)
          (call ''vkDestroyImageView'' [Handle (arena_read (swapchain_image_views r) i)] r)
      else r)"
  by pat_completeness auto
termination
  by (relation "measure (\<lambda>(i, r). unat (swapchain_image_count r) - i)")
     (auto simp: call_def)

declare destroy_image_views_loop.simps [simp del]

text \<open>
  The block of lines 1463-1482, which lines 1530-1549 repeat word for word: what
  \<^verbatim>\<open>renderer_draw\<close> does before its early \<^verbatim>\<open>return\<close>.
\<close>

definition recreate_swapchain :: "vk_driver \<Rightarrow> renderer_t \<Rightarrow> renderer_t" where
  "recreate_swapchain drv r =
     (let r = printf ''INFO: Swapchain out of date, recreating...\<newline>'' [] r;
          r = call ''vkDeviceWaitIdle'' [] r;
          r = destroy_framebuffers_loop 0 r;
          r = destroy_image_views_loop 0 r;
          r = call ''vkDestroySwapchainKHR'' [Handle (Some (swapchain r))] r;
          r = renderer_create_swapchain drv r;
          r = renderer_get_swapchain_images drv r
      in renderer_create_framebuffers drv r)"

text \<open>
  Lines 1489-1525 of \<^verbatim>\<open>renderer_draw\<close>: the fence and command buffer resets, the recording,
  the submission and the call of \<^verbatim>\<open>vkQueuePresentKHR\<close>, up to the \<^verbatim>\<open>switch\<close> on its result.
\<close>

definition submit_and_present :: "vk_driver \<Rightarrow> u32 \<Rightarrow> renderer_t \<Rightarrow> renderer_t" where
  "submit_and_present drv image_index r =
     (let r = call ''vkResetFences'' [] r;
          r = call ''vkResetCommandBuffer'' [] r;
          r = renderer_record_command_buffer drv r image_index;
          r = call ''vkQueueSubmit'' [] r;
          r = VK_CHECK (drv_queue_submit drv) ''vkQueueSubmit( renderer->graphics_queue, 1, &submit_info, renderer->in_flight_fence )'' r
      in call ''vkQueuePresentKHR'' [Handle (Some (swapchain r)), Word image_index] r)"

definition renderer_draw :: "vk_driver \<Rightarrow> renderer_t \<Rightarrow> halt + renderer_t" where
  "renderer_draw drv r =
     (let r = call ''vkWaitForFences'' [] r;
          (acquired, image_index) = drv_acquire_next_image drv;
          r = call ''vkAcquireNextImageKHR'' [Handle (Some (swapchain r))] r
      in if acquired = VK_SUCCESS then
           (let presented = drv_queue_present drv;
                r = submit_and_present drv image_index r
            in if presented = VK_SUCCESS then Inr r
               else if presented = VK_ERROR_OUT_OF_DATE_KHR \<or> presented = VK_SUBOPTIMAL_KHR
               then Inr (recreate_swapchain drv r)
               else exit 1 (printf ''ERROR: Failed to present!\<newline>'' [] r))
         else if acquired = VK_ERROR_OUT_OF_DATE_KHR \<or> acquired = VK_SUBOPTIMAL_KHR
         then Inr (recreate_swapchain drv r)
         else exit 1 (printf ''ERROR: Failed to acquire swapchain image!\<newline>'' [] r))"

section \<open>\<^verbatim>\<open>create_renderer\<close> and the window\<close>

text \<open>
  \<^verbatim>\<open>create_renderer\<close>, from \<^verbatim>\<open>renderer_pick_physical_device\<close> on. \<open>r0\<close> is the content of
  the uninitialised local \<^verbatim>\<open>renderer\<close> (any value), with the process's output so far as its
  trace. The instance, debug messenger and surface (before the steps modelled here), the
  render pass and the pipeline (between \<^verbatim>\<open>renderer_get_swapchain_images\<close> and
  \<^verbatim>\<open>renderer_create_framebuffers\<close>) and the command pool, command buffer and sync objects
  (after them) are created by functions that read and write none of the fields of the
  model and make none of the calls the model records.
\<close>

definition create_renderer :: "vk_driver \<Rightarrow> window_t \<Rightarrow> renderer_t \<Rightarrow> halt + renderer_t" where
  "create_renderer drv w r0 =
     (let r = r0\<lparr>window := w\<rparr>;
          r = printf ''INFO: Creating renderer...\<newline>'' [] r;
          r = renderer_pick_physical_device drv r
      in case renderer_find_queue_families drv r of
           Inl h \<Rightarrow> Inl h
         | Inr r \<Rightarrow>
            (case renderer_create_logical_device drv r of
               Inl h \<Rightarrow> Inl h
             | Inr r \<Rightarrow>
                (let r = renderer_create_queues r;
                     r = renderer_create_swapchain drv r;
                     r = renderer_get_swapchain_images drv r
                 in Inr (renderer_create_framebuffers drv r))))"

text \<open>
  \<^verbatim>\<open>update_window\<close>: the events \<^verbatim>\<open>SDL_PollEvent\<close> delivers during one call, in order.
\<close>

datatype SDL_Event = SDL_QUIT | SDL_WINDOWEVENT_RESIZED u32 u32 | SDL_OTHER_EVENT

fun poll_events :: "SDL_Event list \<Rightarrow> window_t \<Rightarrow> window_t" where
  "poll_events [] w = w"
| "poll_events (SDL_QUIT # es) w = poll_events es (w\<lparr>running := False\<rparr>)"
| "poll_events (SDL_WINDOWEVENT_RESIZED data1 data2 # es) w =
     poll_events es (w\<lparr>win_size := \<lparr>vec_x = data1, vec_y = data2\<rparr>, resized := True\<rparr>)"
| "poll_events (SDL_OTHER_EVENT # es) w = poll_events es w"

definition update_window :: "SDL_Event list \<Rightarrow> window_t \<Rightarrow> window_t" where
  "update_window es w =
     (let w = w\<lparr>resized := False\<rparr>;
          w = poll_events es w
      in w\<lparr>ticks := ticks w + 1\<rparr>)"

section \<open>Observations and predicates used in the statements\<close>

text \<open>The names of the Vulkan calls of a trace, in order, and the arguments of the calls of
  one name.\<close>

fun call_name :: "event \<Rightarrow> string list" where
  "call_name (Call f args) = [f]"
| "call_name (Printf fmt args) = []"

definition call_names :: "event list \<Rightarrow> string list" where
  "call_names es = concat (map call_name es)"

fun call_args_of :: "string \<Rightarrow> event \<Rightarrow> vk_arg list list" where
  "call_args_of f (Call g args) = (if g = f then [args] else [])"
| "call_args_of f (Printf fmt args) = []"

definition calls_of :: "string \<Rightarrow> event list \<Rightarrow> vk_arg list list" where
  "calls_of f es = concat (map (call_args_of f) es)"

text \<open>What \<open>VK_CHECK\<close> prints.\<close>

definition check_log :: "VkResult \<Rightarrow> string \<Rightarrow> event list" where
  "check_log res expr =
     (if res \<noteq> VK_SUCCESS
      then [Printf ''ERROR %d: %s\<newline>'' [Arg_int res, Arg_str expr]] else [])"

text \<open>The device type the driver reports for a device.\<close>

definition device_has_type :: "vk_driver \<Rightarrow> VkPhysicalDeviceType \<Rightarrow> handle \<Rightarrow> bool" where
  "device_has_type drv ty d = (deviceType (drv_physical_device_properties drv (Some d)) = ty)"

text \<open>
  The indices of the queue families with the graphics bit, and of those that can present
  to the surface, in increasing order.
\<close>

definition graphics_families :: "vk_driver \<Rightarrow> nat list" where
  "graphics_families drv =
     filter (\<lambda>i. queueFlags (drv_queue_families drv ! i) AND VK_QUEUE_GRAPHICS_BIT \<noteq> 0)
       [0..<length (drv_queue_families drv)]"

definition present_families :: "vk_driver \<Rightarrow> nat list" where
  "present_families drv =
     filter (drv_surface_support drv) [0..<length (drv_queue_families drv)]"

text \<open>
  The three swapchain arrays as one build against the driver \<open>drv\<close> leaves them: the count
  and the images are those the driver reports for the swapchain, view \<open>i\<close> is what the
  driver returned for the view of image \<open>i\<close>, and framebuffer \<open>i\<close> is what it returned for the
  framebuffer whose attachment is view \<open>i\<close>.
\<close>

definition swapchain_built_by :: "vk_driver \<Rightarrow> renderer_t \<Rightarrow> bool" where
  "swapchain_built_by drv r =
     (swapchain_image_count r = fst (snd (drv_swapchain_images drv (swapchain r)))
      \<and> swapchain_images r =
          map (snd (snd (drv_swapchain_images drv (swapchain r))))
            [0..<unat (swapchain_image_count r)]
      \<and> swapchain_image_views r =
          map (\<lambda>img. snd (drv_create_image_view drv
                  \<lparr>image = Some img,
                   view_format = map_option format (surface_format (surface_info r))\<rparr>))
            (swapchain_images r)
      \<and> swapchain_framebuffers r =
          map (\<lambda>view. snd (drv_create_framebuffer drv
                  \<lparr>pAttachments = Some view,
                   fb_width = width (swapchain_extent r),
                   fb_height = height (swapchain_extent r)\<rparr>))
            (swapchain_image_views r))"

text \<open>Whether \<^verbatim>\<open>renderer_draw\<close> reaches one of its two rebuild blocks under a driver.\<close>

definition takes_rebuild :: "vk_driver \<Rightarrow> bool" where
  "takes_rebuild drv =
     (fst (drv_acquire_next_image drv) = VK_ERROR_OUT_OF_DATE_KHR
      \<or> fst (drv_acquire_next_image drv) = VK_SUBOPTIMAL_KHR
      \<or> (fst (drv_acquire_next_image drv) = VK_SUCCESS
          \<and> (drv_queue_present drv = VK_ERROR_OUT_OF_DATE_KHR
              \<or> drv_queue_present drv = VK_SUBOPTIMAL_KHR)))"

text \<open>
  The states of \<^verbatim>\<open>main\<close>'s loop: \<^verbatim>\<open>create_renderer\<close> returned, and then any number of
  iterations, each \<^verbatim>\<open>update_window\<close> followed by \<^verbatim>\<open>renderer_draw\<close>, under any driver
  behaviour and any window events. \<open>main_loop_state d r\<close> holds when \<open>r\<close> is such a state and
  \<open>d\<close> is the driver behaviour during the latest build of its swapchain.
\<close>

inductive main_loop_state :: "vk_driver \<Rightarrow> renderer_t \<Rightarrow> bool" where
  created: "create_renderer drv w r0 = Inr r \<Longrightarrow> main_loop_state drv r"
| polled: "main_loop_state d r \<Longrightarrow> main_loop_state d (r\<lparr>window := update_window es (window r)\<rparr>)"
| drawn: "main_loop_state d r \<Longrightarrow> renderer_draw drv r = Inr r' \<Longrightarrow> \<not> takes_rebuild drv
          \<Longrightarrow> main_loop_state d r'"
| rebuilt: "main_loop_state d r \<Longrightarrow> renderer_draw drv r = Inr r' \<Longrightarrow> takes_rebuild drv
          \<Longrightarrow> main_loop_state drv r'"

section \<open>A concrete driver, window and renderer\<close>

text \<open>
  Two devices (an integrated and a discrete GPU), two queue families that both support
  graphics and presentation, a surface with two present modes, and a swapchain of two images.
\<close>

definition example_caps :: VkSurfaceCapabilitiesKHR where
  "example_caps =
     \<lparr>minImageCount = 2, maxImageCount = 0,
      currentExtent = \<lparr>width = 800, height = 600\<rparr>,
      minImageExtent = \<lparr>width = 1, height = 1\<rparr>,
      maxImageExtent = \<lparr>width = 4096, height = 4096\<rparr>\<rparr>"

definition example_driver :: vk_driver where
  "example_driver =
     \<lparr>drv_physical_devices = (0, [10, 11]),
      drv_physical_device_properties =
        (\<lambda>d. if d = Some 11
             then \<lparr>deviceType = VK_PHYSICAL_DEVICE_TYPE_DISCRETE_GPU, deviceName = ''discrete''\<rparr>
             else \<lparr>deviceType = VK_PHYSICAL_DEVICE_TYPE_INTEGRATED_GPU,
                   deviceName = ''integrated''\<rparr>),
      drv_queue_families = [\<lparr>queueFlags = 1\<rparr>, \<lparr>queueFlags = 3\<rparr>],
      drv_surface_support = (\<lambda>i. True),
      drv_device_extensions = (0, [''VK_KHR_swapchain'']),
      drv_create_device = (0, 20),
      drv_surface_formats = (0, [\<lparr>format = 50, colorSpace = 0\<rparr>]),
      drv_present_modes = (0, [VK_PRESENT_MODE_MAILBOX_KHR, VK_PRESENT_MODE_FIFO_KHR]),
      drv_surface_caps = (0, example_caps),
      drv_create_swapchain = (\<lambda>ci. (0, 30)),
      drv_swapchain_images = (\<lambda>sc. (0, 2, \<lambda>i. 100 + i)),
      drv_create_image_view =
        (\<lambda>ci. (0, case image ci of Some h \<Rightarrow> 100 + h | None \<Rightarrow> 0)),
      drv_create_framebuffer =
        (\<lambda>ci. (0, case pAttachments ci of Some v \<Rightarrow> 100 + v | None \<Rightarrow> 0)),
      drv_acquire_next_image = (0, 0),
      drv_begin_command_buffer = 0,
      drv_end_command_buffer = 0,
      drv_queue_submit = 0,
      drv_queue_present = 0\<rparr>"

definition example_window :: window_t where
  "example_window =
     \<lparr>running = True, win_size = \<lparr>vec_x = 800, vec_y = 600\<rparr>, ticks = 0, resized = False\<rparr>"

definition blank_renderer :: renderer_t where
  "blank_renderer =
     \<lparr>window = example_window,
      physical_device = None,
      device = 0,
      queue_family_indices = \<lparr>graphics_family = 0, present_family = 0, indices = (0, 0)\<rparr>,
      surface_info =
        \<lparr>surface_caps = example_caps, surface_format = None, present_mode = None\<rparr>,
      swapchain_extent = \<lparr>width = 0, height = 0\<rparr>,
      swapchain = 0,
      swapchain_image_count = 0,
      swapchain_images = [],
      swapchain_image_views = [],
      swapchain_framebuffers = [],
      trace = []\<rparr>"

text \<open>The same driver with one graphics-only family (0) and one present-only family (1).\<close>

definition example_split_driver :: vk_driver where
  "example_split_driver =
     example_driver\<lparr>drv_queue_families := [\<lparr>queueFlags = 1\<rparr>, \<lparr>queueFlags = 0\<rparr>],
                    drv_surface_support := (\<lambda>i. i = 1)\<rparr>"

text \<open>
  A renderer as \<^verbatim>\<open>create_renderer\<close> leaves it under the driver of the example, with an
  empty trace.
\<close>

definition example_renderer :: renderer_t where
  "example_renderer =
     \<lparr>window = example_window,
      physical_device = Some 11,
      device = 20,
      queue_family_indices = \<lparr>graphics_family = 1, present_family = 1, indices = (1, 1)\<rparr>,
      surface_info =
        \<lparr>surface_caps = example_caps,
         surface_format = Some \<lparr>format = 50, colorSpace = 0\<rparr>,
         present_mode = Some VK_PRESENT_MODE_MAILBOX_KHR\<rparr>,
      swapchain_extent = \<lparr>width = 800, height = 600\<rparr>,
      swapchain = 30,
      swapchain_image_count = 2,
      swapchain_images = [100, 101],
      swapchain_image_views = [200, 201],
      swapchain_framebuffers = [300, 301],
      trace = []\<rparr>"

text \<open>
  The driver of the example when image acquisition reports a suboptimal swapchain, and when
  \<^verbatim>\<open>vkQueueSubmit\<close> fails with \<^verbatim>\<open>VK_ERROR_DEVICE_LOST\<close> (-4).
\<close>

definition example_stale_driver :: vk_driver where
  "example_stale_driver = example_driver\<lparr>drv_acquire_next_image := (VK_SUBOPTIMAL_KHR, 0)\<rparr>"


text \<open>
  The example after the window has grown to 1024 x 768: image acquisition reports a
  suboptimal swapchain, the surface reports the new current extent, the next swapchain
  created gets the handle 31, and its images are 110 and 111.
\<close>

definition example_resized_driver :: vk_driver where
  "example_resized_driver =
     example_driver\<lparr>drv_acquire_next_image := (VK_SUBOPTIMAL_KHR, 0),
                    drv_surface_caps :=
                      (0, example_caps\<lparr>currentExtent := \<lparr>width = 1024, height = 768\<rparr>\<rparr>),
                    drv_create_swapchain := (\<lambda>ci. (0, 31)),
                    drv_swapchain_images := (\<lambda>sc. (0, 2, \<lambda>i. 110 + i))\<rparr>"

definition example_resized_renderer :: renderer_t where
  "example_resized_renderer =
     example_renderer\<lparr>window := example_window\<lparr>win_size := \<lparr>vec_x = 1024, vec_y = 768\<rparr>\<rparr>\<rparr>"

section \<open>Lemmas on the primitives and on swapchain creation\<close>

lemma VK_CHECK_alt: "VK_CHECK res expr r = r\<lparr>trace := trace r @ check_log res expr\<rparr>"
  by (simp add: VK_CHECK_def check_log_def printf_def)

lemma call_names_simps [simp]:
  "call_names [] = []"
  "call_names (e # es) = call_name e @ call_names es"
  "call_names (xs @ ys) = call_names xs @ call_names ys"
  "call_names (check_log res expr) = []"
  by (simp_all add: call_names_def check_log_def)

lemma calls_of_simps [simp]:
  "calls_of f [] = []"
  "calls_of f (e # es) = call_args_of f e @ calls_of f es"
  "calls_of f (xs @ ys) = calls_of f xs @ calls_of f ys"
  "calls_of f (check_log res expr) = []"
  by (simp_all add: calls_of_def check_log_def)

lemmas prim_defs = printf_def call_def VK_CHECK_alt

lemma surface_format_fields:
  "calls_of ''vkCreateSwapchainKHR'' (trace (swapchain_surface_format drv r)) = calls_of ''vkCreateSwapchainKHR'' (trace r)"
  "call_names (trace (swapchain_surface_format drv r)) = call_names (trace r) @
     [''vkGetPhysicalDeviceSurfaceFormatsKHR'', ''vkGetPhysicalDeviceSurfaceFormatsKHR'']"
  "window (swapchain_surface_format drv r) = window r"
  "queue_family_indices (swapchain_surface_format drv r) = queue_family_indices r"
  "present_mode (surface_info (swapchain_surface_format drv r)) = present_mode (surface_info r)"
  "swapchain (swapchain_surface_format drv r) = swapchain r"
  by (simp_all add: swapchain_surface_format_def prim_defs Let_def case_prod_beta)

lemma present_mode_fields:
  "calls_of ''vkCreateSwapchainKHR'' (trace (swapchain_present_mode drv r)) = calls_of ''vkCreateSwapchainKHR'' (trace r)"
  "call_names (trace (swapchain_present_mode drv r)) = call_names (trace r) @
     [''vkGetPhysicalDeviceSurfacePresentModesKHR'', ''vkGetPhysicalDeviceSurfacePresentModesKHR'']"
  "window (swapchain_present_mode drv r) = window r"
  "queue_family_indices (swapchain_present_mode drv r) = queue_family_indices r"
  "present_mode (surface_info (swapchain_present_mode drv r)) = arena_read (snd (drv_present_modes drv)) 0"
  "surface_format (surface_info (swapchain_present_mode drv r)) = surface_format (surface_info r)"
  "swapchain (swapchain_present_mode drv r) = swapchain r"
  by (simp_all add: swapchain_present_mode_def prim_defs Let_def case_prod_beta)

lemma surface_caps_fields:
  "calls_of ''vkCreateSwapchainKHR'' (trace (swapchain_surface_caps drv r)) = calls_of ''vkCreateSwapchainKHR'' (trace r)"
  "call_names (trace (swapchain_surface_caps drv r)) = call_names (trace r) @
     [''vkGetPhysicalDeviceSurfaceCapabilitiesKHR'']"
  "window (swapchain_surface_caps drv r) = window r"
  "queue_family_indices (swapchain_surface_caps drv r) = queue_family_indices r"
  "present_mode (surface_info (swapchain_surface_caps drv r)) = present_mode (surface_info r)"
  "surface_format (surface_info (swapchain_surface_caps drv r)) = surface_format (surface_info r)"
  "surface_caps (surface_info (swapchain_surface_caps drv r)) = snd (drv_surface_caps drv)"
  "swapchain (swapchain_surface_caps drv r) = swapchain r"
  by (simp_all add: swapchain_surface_caps_def prim_defs Let_def case_prod_beta)

lemmas block_fields = surface_format_fields present_mode_fields surface_caps_fields

lemma create_swapchain_fields:
  "swapchain_image_count (renderer_create_swapchain drv r) = set_image_count (snd (drv_surface_caps drv))"
  "swapchain_extent (renderer_create_swapchain drv r) =
     set_extent (snd (drv_surface_caps drv)) (win_size (window r))"
  "present_mode (surface_info (renderer_create_swapchain drv r)) = arena_read (snd (drv_present_modes drv)) 0"
  "surface_caps (surface_info (renderer_create_swapchain drv r)) = snd (drv_surface_caps drv)"
  "queue_family_indices (renderer_create_swapchain drv r) = queue_family_indices r"
  "window (renderer_create_swapchain drv r) = window r"
  "call_names (trace (renderer_create_swapchain drv r)) = call_names (trace r) @
     [''vkGetPhysicalDeviceSurfaceFormatsKHR'', ''vkGetPhysicalDeviceSurfaceFormatsKHR'',
      ''vkGetPhysicalDeviceSurfacePresentModesKHR'', ''vkGetPhysicalDeviceSurfacePresentModesKHR'',
      ''vkGetPhysicalDeviceSurfaceCapabilitiesKHR'', ''vkCreateSwapchainKHR'']"
  by (simp_all add: renderer_create_swapchain_def prim_defs Let_def block_fields case_prod_beta)

lemma set_swapchain_info_cong:
  "surface_info a = surface_info b \<Longrightarrow> queue_family_indices a = queue_family_indices b
   \<Longrightarrow> set_swapchain_info a = set_swapchain_info b"
  by (simp add: set_swapchain_info_def Let_def)

lemma set_swapchain_info_update [simp]:
  "set_swapchain_info (r\<lparr>swapchain_image_count := n\<rparr>) = set_swapchain_info r"
  "set_swapchain_info (r\<lparr>swapchain_extent := e\<rparr>) = set_swapchain_info r"
  "set_swapchain_info (r\<lparr>swapchain := sc\<rparr>) = set_swapchain_info r"
  "set_swapchain_info (r\<lparr>trace := t\<rparr>) = set_swapchain_info r"
  by (simp_all add: set_swapchain_info_def Let_def)

lemma create_swapchain_requests:
  "calls_of ''vkCreateSwapchainKHR'' (trace (renderer_create_swapchain drv r)) =
     calls_of ''vkCreateSwapchainKHR'' (trace r) @ [[Swapchain_cinfo (set_swapchain_info (renderer_create_swapchain drv r))]]"
proof -
  have "set_swapchain_info (renderer_create_swapchain drv r) =
     set_swapchain_info (swapchain_surface_caps drv (swapchain_present_mode drv
        (swapchain_surface_format drv (printf ''INFO: Creating swapchain...\<newline>'' [] r))))"
    by (rule set_swapchain_info_cong)
       (simp_all add: renderer_create_swapchain_def prim_defs Let_def case_prod_beta)
  moreover have "calls_of ''vkCreateSwapchainKHR'' (trace (renderer_create_swapchain drv r)) =
     calls_of ''vkCreateSwapchainKHR'' (trace r) @ 
     [[Swapchain_cinfo (set_swapchain_info (swapchain_surface_caps drv (swapchain_present_mode drv
        (swapchain_surface_format drv (printf ''INFO: Creating swapchain...\<newline>'' [] r)))))]]"
    by (simp add: renderer_create_swapchain_def prim_defs Let_def block_fields case_prod_beta)
  ultimately show ?thesis by simp
qed

lemma set_image_count_differs: "set_image_count caps \<noteq> minImageCount caps"
  by (auto simp: set_image_count_def Let_def)

lemma create_swapchain_handle:
  "swapchain (renderer_create_swapchain drv r) =
     snd (drv_create_swapchain drv (set_swapchain_info (renderer_create_swapchain drv r)))"
proof -
  have "set_swapchain_info (renderer_create_swapchain drv r) =
     set_swapchain_info (swapchain_surface_caps drv (swapchain_present_mode drv
        (swapchain_surface_format drv (printf ''INFO: Creating swapchain...\<newline>'' [] r))))"
    by (rule set_swapchain_info_cong)
       (simp_all add: renderer_create_swapchain_def prim_defs Let_def case_prod_beta)
  moreover have "swapchain (renderer_create_swapchain drv r) =
     snd (drv_create_swapchain drv
       (set_swapchain_info (swapchain_surface_caps drv (swapchain_present_mode drv
        (swapchain_surface_format drv (printf ''INFO: Creating swapchain...\<newline>'' [] r))))))"
    by (simp add: renderer_create_swapchain_def prim_defs Let_def case_prod_beta)
  ultimately show ?thesis by simp
qed

lemma create_swapchain_surface_format:
  "surface_format (surface_info (renderer_create_swapchain drv r)) =
     surface_format (surface_info (swapchain_surface_format drv r))"
  by (simp add: renderer_create_swapchain_def prim_defs Let_def block_fields case_prod_beta
      swapchain_surface_format_def)

section \<open>Swapchain creation\<close>

lemma VkExtent2D_eq_iff:
  "(\<lparr>width = a, height = b\<rparr> = e) = (a = width e \<and> b = height e)"
  by (cases e) auto

text \<open>
  Claim C5, as amended. Every run of \<^verbatim>\<open>renderer_create_swapchain\<close> makes exactly one call
  of \<^verbatim>\<open>vkCreateSwapchainKHR\<close>. Its create-info carries the capability snapshot's
  \<^verbatim>\<open>minImageCount\<close> as the requested image count and the snapshot's \<^verbatim>\<open>currentExtent\<close> as
  the image extent. The image count stored in the renderer is \<^verbatim>\<open>minImageCount + 1\<close>, or
  \<^verbatim>\<open>maxImageCount\<close> where that is positive and below \<^verbatim>\<open>minImageCount\<close>, and it is never the
  count that was requested. The extent stored in the renderer is the current extent where
  the width of the current extent is \<^verbatim>\<open>0xFFFFFFFF\<close> and the clamped size of the window
  otherwise, so it is the extent that was requested exactly when the width of the current
  extent is \<^verbatim>\<open>0xFFFFFFFF\<close> or the clamped size of the window is the current extent.
\<close>

theorem swapchain_request_uses_capability_values:
  "calls_of ''vkCreateSwapchainKHR'' (trace (renderer_create_swapchain drv r)) =
     calls_of ''vkCreateSwapchainKHR'' (trace r) @
       [[Swapchain_cinfo (set_swapchain_info (renderer_create_swapchain drv r))]]
   \<and> cinfo_minImageCount (set_swapchain_info (renderer_create_swapchain drv r)) =
       minImageCount (snd (drv_surface_caps drv))
   \<and> imageExtent (set_swapchain_info (renderer_create_swapchain drv r)) =
       currentExtent (snd (drv_surface_caps drv))
   \<and> swapchain_image_count (renderer_create_swapchain drv r) =
       (if 0 < maxImageCount (snd (drv_surface_caps drv))
           \<and> maxImageCount (snd (drv_surface_caps drv)) < minImageCount (snd (drv_surface_caps drv))
        then maxImageCount (snd (drv_surface_caps drv))
        else minImageCount (snd (drv_surface_caps drv)) + 1)
   \<and> swapchain_image_count (renderer_create_swapchain drv r) \<noteq>
       cinfo_minImageCount (set_swapchain_info (renderer_create_swapchain drv r))
   \<and> swapchain_extent (renderer_create_swapchain drv r) =
       (if width (currentExtent (snd (drv_surface_caps drv))) = 0xFFFFFFFF
        then currentExtent (snd (drv_surface_caps drv))
        else \<lparr>width = NH_CLAMP (vec_x (win_size (window r)))
                       (width (minImageExtent (snd (drv_surface_caps drv))))
                       (width (maxImageExtent (snd (drv_surface_caps drv)))),
              height = NH_CLAMP (vec_y (win_size (window r)))
                       (height (minImageExtent (snd (drv_surface_caps drv))))
                       (height (maxImageExtent (snd (drv_surface_caps drv))))\<rparr>)
   \<and> ((swapchain_extent (renderer_create_swapchain drv r) =
          imageExtent (set_swapchain_info (renderer_create_swapchain drv r))) =
       (width (currentExtent (snd (drv_surface_caps drv))) = 0xFFFFFFFF
        \<or> (NH_CLAMP (vec_x (win_size (window r)))
              (width (minImageExtent (snd (drv_surface_caps drv))))
              (width (maxImageExtent (snd (drv_surface_caps drv))))
              = width (currentExtent (snd (drv_surface_caps drv)))
           \<and> NH_CLAMP (vec_y (win_size (window r)))
              (height (minImageExtent (snd (drv_surface_caps drv))))
              (height (maxImageExtent (snd (drv_surface_caps drv))))
              = height (currentExtent (snd (drv_surface_caps drv))))))"
proof -
  let ?r' = "renderer_create_swapchain drv r"
  let ?caps = "snd (drv_surface_caps drv)"
  have ci: "cinfo_minImageCount (set_swapchain_info ?r') = minImageCount ?caps"
    "imageExtent (set_swapchain_info ?r') = currentExtent ?caps"
    by (simp_all add: set_swapchain_info_def Let_def create_swapchain_fields)
  have cnt: "swapchain_image_count ?r' =
       (if 0 < maxImageCount ?caps \<and> maxImageCount ?caps < minImageCount ?caps
        then maxImageCount ?caps else minImageCount ?caps + 1)"
    by (simp add: create_swapchain_fields set_image_count_def Let_def)
  have neq: "swapchain_image_count ?r' \<noteq> cinfo_minImageCount (set_swapchain_info ?r')"
    using set_image_count_differs [of ?caps] by (simp add: ci create_swapchain_fields)
  have ext: "swapchain_extent ?r' =
       (if width (currentExtent ?caps) = 0xFFFFFFFF then currentExtent ?caps
        else \<lparr>width = NH_CLAMP (vec_x (win_size (window r)))
                       (width (minImageExtent ?caps)) (width (maxImageExtent ?caps)),
              height = NH_CLAMP (vec_y (win_size (window r)))
                       (height (minImageExtent ?caps)) (height (maxImageExtent ?caps))\<rparr>)"
    by (simp add: create_swapchain_fields set_extent_def)
  have same: "(swapchain_extent ?r' = imageExtent (set_swapchain_info ?r')) =
       (width (currentExtent ?caps) = 0xFFFFFFFF
        \<or> (NH_CLAMP (vec_x (win_size (window r)))
              (width (minImageExtent ?caps)) (width (maxImageExtent ?caps))
              = width (currentExtent ?caps)
           \<and> NH_CLAMP (vec_y (win_size (window r)))
              (height (minImageExtent ?caps)) (height (maxImageExtent ?caps))
              = height (currentExtent ?caps)))"
    unfolding ext ci by (simp add: VkExtent2D_eq_iff)
  show ?thesis
    using create_swapchain_requests [of drv r] ci cnt neq ext same by blast
qed

lemma example_caps_simps [simp]:
  "snd (drv_surface_caps example_driver) = example_caps"
  "win_size (window blank_renderer) = \<lparr>vec_x = 800, vec_y = 600\<rparr>"
  "trace blank_renderer = []"
  by (simp_all add: example_driver_def blank_renderer_def example_window_def)

text \<open>
  The claim as stated fails in the usual case, where the surface reports the size of the
  window as its current extent. For a window of 800 x 600 and a current extent of 800 x 600
  the single create request carries the extent 800 x 600, and the extent stored in the
  renderer is that same extent.
\<close>

theorem stored_extent_is_requested_extent:
  "win_size (window blank_renderer) = \<lparr>vec_x = 800, vec_y = 600\<rparr>
   \<and> currentExtent (snd (drv_surface_caps example_driver)) = \<lparr>width = 800, height = 600\<rparr>
   \<and> calls_of ''vkCreateSwapchainKHR''
         (trace (renderer_create_swapchain example_driver blank_renderer)) =
       [[Swapchain_cinfo
           (set_swapchain_info (renderer_create_swapchain example_driver blank_renderer))]]
   \<and> imageExtent (set_swapchain_info (renderer_create_swapchain example_driver blank_renderer))
       = \<lparr>width = 800, height = 600\<rparr>
   \<and> swapchain_extent (renderer_create_swapchain example_driver blank_renderer)
       = \<lparr>width = 800, height = 600\<rparr>"
  by (simp add: create_swapchain_requests create_swapchain_fields set_swapchain_info_def
      Let_def set_extent_def example_caps_def NH_CLAMP_def)

text \<open>
  With the same surface and a window of 1024 x 768 the two differ: the request carries
  800 x 600 and the renderer stores 1024 x 768.
\<close>

lemma stored_extent_differs_example:
  "imageExtent
     (set_swapchain_info
        (renderer_create_swapchain example_driver
           (blank_renderer\<lparr>window := example_window\<lparr>win_size := \<lparr>vec_x = 1024, vec_y = 768\<rparr>\<rparr>\<rparr>)))
     = \<lparr>width = 800, height = 600\<rparr>
   \<and> swapchain_extent
       (renderer_create_swapchain example_driver
          (blank_renderer\<lparr>window := example_window\<lparr>win_size := \<lparr>vec_x = 1024, vec_y = 768\<rparr>\<rparr>\<rparr>))
     = \<lparr>width = 1024, height = 768\<rparr>"
  by (simp add: create_swapchain_fields set_swapchain_info_def
      Let_def set_extent_def example_caps_def NH_CLAMP_def)

text \<open>
  Claim C1, evaluated on the code. The clamp of lines 709-714 compares \<^verbatim>\<open>maxImageCount\<close>
  with \<^verbatim>\<open>minImageCount\<close>, not with \<^verbatim>\<open>minImageCount + 1\<close>: for a snapshot with
  \<^verbatim>\<open>minImageCount = 3\<close> and \<^verbatim>\<open>maxImageCount = 3\<close> the stored image count is 4. For
  \<^verbatim>\<open>minImageCount = 2\<close> and \<^verbatim>\<open>maxImageCount = 0\<close> it is 3.
\<close>

theorem image_count_min3_max3:
  "swapchain_image_count
     (renderer_create_swapchain
        (drv\<lparr>drv_surface_caps := (res, caps\<lparr>minImageCount := 3, maxImageCount := 3\<rparr>)\<rparr>) r) = 4
   \<and> swapchain_image_count
     (renderer_create_swapchain
        (drv\<lparr>drv_surface_caps := (res, caps\<lparr>minImageCount := 2, maxImageCount := 0\<rparr>)\<rparr>) r) = 3"
  by (simp add: create_swapchain_fields set_image_count_def)

text \<open>
  Claim C4, evaluated on the code. \<^verbatim>\<open>found_mode\<close> is never set, so the assignment of
  line 697 always runs: the negotiated present mode is the first enumerated mode, also
  when FIFO is enumerated later in the list.
\<close>

theorem present_mode_is_first_enumerated:
  "present_mode (surface_info (renderer_create_swapchain drv r)) =
     arena_read (snd (drv_present_modes drv)) 0
   \<and> present_mode (surface_info
        (renderer_create_swapchain
           (drv\<lparr>drv_present_modes :=
                 (res, [VK_PRESENT_MODE_MAILBOX_KHR, VK_PRESENT_MODE_FIFO_KHR])\<rparr>) r))
      = Some VK_PRESENT_MODE_MAILBOX_KHR"
  by (simp add: create_swapchain_fields arena_read_def)

text \<open>
  Claim C7. Let the surface report its current extent as the Vulkan interface defines it:
  either the "undefined" sentinel, whose two components are \<^verbatim>\<open>0xFFFFFFFF\<close>, or an extent
  whose width is not \<^verbatim>\<open>0xFFFFFFFF\<close>. Then, after \<^verbatim>\<open>renderer_create_swapchain\<close>, the stored
  extent is the sentinel if the current extent is the sentinel, and otherwise each of its
  components is \<^verbatim>\<open>NH_CLAMP\<close> of the window's size between the minimum and maximum extents.
  Where the minimum extent is not above the maximum extent, the stored extent is therefore
  the sentinel or lies between the two, component by component.
\<close>

theorem extent_resolution:
  assumes "currentExtent (snd (drv_surface_caps drv)) = \<lparr>width = 0xFFFFFFFF, height = 0xFFFFFFFF\<rparr>
           \<or> width (currentExtent (snd (drv_surface_caps drv))) \<noteq> 0xFFFFFFFF"
  shows "(currentExtent (snd (drv_surface_caps drv)) = \<lparr>width = 0xFFFFFFFF, height = 0xFFFFFFFF\<rparr>
            \<longrightarrow> swapchain_extent (renderer_create_swapchain drv r) =
                  \<lparr>width = 0xFFFFFFFF, height = 0xFFFFFFFF\<rparr>)
         \<and> (currentExtent (snd (drv_surface_caps drv)) \<noteq> \<lparr>width = 0xFFFFFFFF, height = 0xFFFFFFFF\<rparr>
            \<longrightarrow> swapchain_extent (renderer_create_swapchain drv r) =
                  \<lparr>width = NH_CLAMP (vec_x (win_size (window r)))
                             (width (minImageExtent (snd (drv_surface_caps drv))))
                             (width (maxImageExtent (snd (drv_surface_caps drv)))),
                   height = NH_CLAMP (vec_y (win_size (window r)))
                             (height (minImageExtent (snd (drv_surface_caps drv))))
                             (height (maxImageExtent (snd (drv_surface_caps drv))))\<rparr>)
         \<and> (width (minImageExtent (snd (drv_surface_caps drv)))
               \<le> width (maxImageExtent (snd (drv_surface_caps drv)))
             \<and> height (minImageExtent (snd (drv_surface_caps drv)))
               \<le> height (maxImageExtent (snd (drv_surface_caps drv)))
            \<longrightarrow> swapchain_extent (renderer_create_swapchain drv r) =
                  \<lparr>width = 0xFFFFFFFF, height = 0xFFFFFFFF\<rparr>
                \<or> (width (minImageExtent (snd (drv_surface_caps drv)))
                      \<le> width (swapchain_extent (renderer_create_swapchain drv r))
                    \<and> width (swapchain_extent (renderer_create_swapchain drv r))
                      \<le> width (maxImageExtent (snd (drv_surface_caps drv)))
                    \<and> height (minImageExtent (snd (drv_surface_caps drv)))
                      \<le> height (swapchain_extent (renderer_create_swapchain drv r))
                    \<and> height (swapchain_extent (renderer_create_swapchain drv r))
                      \<le> height (maxImageExtent (snd (drv_surface_caps drv)))))"
proof -
  let ?caps = "snd (drv_surface_caps drv)"
  have ext: "swapchain_extent (renderer_create_swapchain drv r) =
               set_extent ?caps (win_size (window r))"
    by (simp add: create_swapchain_fields)
  show ?thesis
  proof (cases "width (currentExtent ?caps) = 0xFFFFFFFF")
    case True
    with assms have "currentExtent ?caps = \<lparr>width = 0xFFFFFFFF, height = 0xFFFFFFFF\<rparr>"
      by simp
    then show ?thesis
      unfolding ext by (simp add: set_extent_def)
  next
    case False
    then have "currentExtent ?caps \<noteq> \<lparr>width = 0xFFFFFFFF, height = 0xFFFFFFFF\<rparr>"
      by auto
    with False show ?thesis
      unfolding ext by (auto simp add: set_extent_def NH_CLAMP_def)
  qed
qed

text \<open>
  Two runs: a window of 5000 x 0 on a surface with extents between 1 x 1 and 4096 x 4096
  (both components are clamped), and a surface that reports the sentinel.
\<close>

theorem extent_resolution_witness:
  "(currentExtent (snd (drv_surface_caps example_driver)) = \<lparr>width = 0xFFFFFFFF, height = 0xFFFFFFFF\<rparr>
      \<or> width (currentExtent (snd (drv_surface_caps example_driver))) \<noteq> 0xFFFFFFFF)
   \<and> currentExtent (snd (drv_surface_caps example_driver)) \<noteq>
       \<lparr>width = 0xFFFFFFFF, height = 0xFFFFFFFF\<rparr>
   \<and> minImageExtent (snd (drv_surface_caps example_driver)) = \<lparr>width = 1, height = 1\<rparr>
   \<and> maxImageExtent (snd (drv_surface_caps example_driver)) = \<lparr>width = 4096, height = 4096\<rparr>
   \<and> swapchain_extent
       (renderer_create_swapchain example_driver
          (blank_renderer\<lparr>window := example_window\<lparr>win_size := \<lparr>vec_x = 5000, vec_y = 0\<rparr>\<rparr>\<rparr>))
       = \<lparr>width = 4096, height = 1\<rparr>
   \<and> swapchain_extent
       (renderer_create_swapchain
          (example_driver\<lparr>drv_surface_caps :=
             (0, example_caps\<lparr>currentExtent := \<lparr>width = 0xFFFFFFFF, height = 0xFFFFFFFF\<rparr>\<rparr>)\<rparr>)
          blank_renderer) = \<lparr>width = 0xFFFFFFFF, height = 0xFFFFFFFF\<rparr>"
proof -
  let ?big = "blank_renderer\<lparr>window := example_window\<lparr>win_size := \<lparr>vec_x = 5000, vec_y = 0\<rparr>\<rparr>\<rparr>"
  let ?undef = "example_driver\<lparr>drv_surface_caps :=
             (0, example_caps\<lparr>currentExtent := \<lparr>width = 0xFFFFFFFF, height = 0xFFFFFFFF\<rparr>\<rparr>)\<rparr>"
  have h1: "currentExtent (snd (drv_surface_caps example_driver)) = \<lparr>width = 0xFFFFFFFF, height = 0xFFFFFFFF\<rparr>
      \<or> width (currentExtent (snd (drv_surface_caps example_driver))) \<noteq> 0xFFFFFFFF"
    by (simp add: example_caps_def)
  have h2: "currentExtent (snd (drv_surface_caps ?undef)) = \<lparr>width = 0xFFFFFFFF, height = 0xFFFFFFFF\<rparr>
      \<or> width (currentExtent (snd (drv_surface_caps ?undef))) \<noteq> 0xFFFFFFFF"
    by simp
  have c: "NH_CLAMP 5000 1 4096 = 4096" "NH_CLAMP 0 1 4096 = 1"
    by (simp_all add: NH_CLAMP_def)
  from extent_resolution [OF h1, of ?big] extent_resolution [OF h2, of blank_renderer] h1
  show ?thesis
    by (simp add: example_caps_def c)
qed

section \<open>Device selection\<close>

lemma check_for_device_type_spec:
  "fst (check_for_device_type drv ty ds i r) = (find (device_has_type drv ty) (drop i ds) \<noteq> None)
   \<and> physical_device (snd (check_for_device_type drv ty ds i r)) =
       (case find (device_has_type drv ty) (drop i ds) of
          Some d \<Rightarrow> Some d | None \<Rightarrow> physical_device r)"
proof (induction drv ty ds i r rule: check_for_device_type.induct)
  case (1 drv ty ds i r)
  show ?case
  proof (cases "i < length ds")
    case True
    then have d: "drop i ds = ds ! i # drop (i + 1) ds"
      by (simp add: Cons_nth_drop_Suc)
    show ?thesis
    proof (cases "device_has_type drv ty (ds ! i)")
      case True
      then have "deviceType (drv_physical_device_properties drv (Some (ds ! i))) = ty"
        by (simp add: device_has_type_def)
      with True \<open>i < length ds\<close> show ?thesis
        by (subst (1 2) check_for_device_type.simps) (simp add: d Let_def prim_defs)
    next
      case False
      then have neq: "deviceType (drv_physical_device_properties drv (Some (ds ! i))) \<noteq> ty"
        by (simp add: device_has_type_def)
      note IH = 1 [OF \<open>i < length ds\<close> refl refl neq]
      from False neq \<open>i < length ds\<close> IH show ?thesis
        by (subst (1 2) check_for_device_type.simps)
           (simp add: d Let_def prim_defs cong: option.case_cong)
    qed
  next
    case False
    then show ?thesis
      by (subst (1 2) check_for_device_type.simps) simp
  qed
qed

lemma check_for_device_type_calls:
  "f \<noteq> ''vkGetPhysicalDeviceProperties'' \<Longrightarrow>
   calls_of f (trace (snd (check_for_device_type drv ty ds i r))) = calls_of f (trace r)"
proof (induction drv ty ds i r rule: check_for_device_type.induct)
  case (1 drv ty ds i r)
  then show ?case
    by (subst check_for_device_type.simps) (auto simp add: Let_def prim_defs)
qed

lemma arena_read_0: "arena_read xs 0 = (case xs of [] \<Rightarrow> None | x # _ \<Rightarrow> Some x)"
  by (cases xs) (simp_all add: arena_read_def)

text \<open>
  Claim C9. The device \<^verbatim>\<open>renderer_pick_physical_device\<close> stores is the first enumerated
  device the driver reports as a discrete GPU; if there is none, the first it reports as
  an integrated GPU; if there is none either, element 0 of the enumeration (an
  indeterminate value when the enumeration is empty).
\<close>

theorem physical_device_selection:
  "physical_device (renderer_pick_physical_device drv r) =
     (case find (device_has_type drv VK_PHYSICAL_DEVICE_TYPE_DISCRETE_GPU)
             (snd (drv_physical_devices drv)) of
        Some d \<Rightarrow> Some d
      | None \<Rightarrow>
         (case find (device_has_type drv VK_PHYSICAL_DEVICE_TYPE_INTEGRATED_GPU)
                 (snd (drv_physical_devices drv)) of
            Some d \<Rightarrow> Some d
          | None \<Rightarrow>
             (case snd (drv_physical_devices drv) of [] \<Rightarrow> None | d # _ \<Rightarrow> Some d)))"
proof -
  let ?ds = "snd (drv_physical_devices drv)"
  note spec = check_for_device_type_spec [of drv _ ?ds 0, simplified]
  show ?thesis
    by (simp add: renderer_pick_physical_device_def Let_def case_prod_beta prim_defs spec
        arena_read_0 split: option.splits list.splits)
qed

lemma pick_physical_device_calls:
  "f \<noteq> ''vkGetPhysicalDeviceProperties'' \<Longrightarrow> f \<noteq> ''vkEnumeratePhysicalDevices'' \<Longrightarrow>
   calls_of f (trace (renderer_pick_physical_device drv r)) = calls_of f (trace r)"
  by (simp add: renderer_pick_physical_device_def Let_def case_prod_beta prim_defs
      check_for_device_type_calls)

lemma family_found_fields [simp]:
  "queue_family_indices (present_family_found i r) =
     (queue_family_indices r)\<lparr>present_family := i,
        indices := (fst (indices (queue_family_indices r)), i)\<rparr>"
  "queue_family_indices (graphics_family_found i r) =
     (queue_family_indices r)\<lparr>graphics_family := i,
        indices := (i, snd (indices (queue_family_indices r)))\<rparr>"
  "trace (present_family_found i r) =
     trace r @ [Printf ''INFO: Present queue family found\<newline>'' []]"
  "trace (graphics_family_found i r) =
     trace r @ [Printf ''INFO: Graphics queue family found\<newline>'' []]"
  by (simp_all add: present_family_found_def graphics_family_found_def Let_def prim_defs)

lemma find_queue_families_loop_spec:
  fixes drv qfs
  defines "G \<equiv> \<lambda>i. queueFlags (qfs ! i) AND VK_QUEUE_GRAPHICS_BIT \<noteq> 0"
    and "P \<equiv> drv_surface_support drv"
  shows "fst (find_queue_families_loop drv qfs i (g, p, r)) =
           (g \<or> filter G [i..<length qfs] \<noteq> [])
       \<and> fst (snd (find_queue_families_loop drv qfs i (g, p, r))) =
           (p \<or> filter P [i..<length qfs] \<noteq> [])
       \<and> queue_family_indices (snd (snd (find_queue_families_loop drv qfs i (g, p, r)))) =
           \<lparr>graphics_family =
              (if filter G [i..<length qfs] = [] then graphics_family (queue_family_indices r)
               else of_nat (last (filter G [i..<length qfs]))),
            present_family =
              (if filter P [i..<length qfs] = [] then present_family (queue_family_indices r)
               else of_nat (last (filter P [i..<length qfs]))),
            indices =
              (if filter G [i..<length qfs] = [] then fst (indices (queue_family_indices r))
               else of_nat (last (filter G [i..<length qfs])),
               if filter P [i..<length qfs] = [] then snd (indices (queue_family_indices r))
               else of_nat (last (filter P [i..<length qfs])))\<rparr>
       \<and> calls_of ''vkCreateDevice''
            (trace (snd (snd (find_queue_families_loop drv qfs i (g, p, r))))) =
           calls_of ''vkCreateDevice'' (trace r)"
proof (induction "length qfs - i" arbitrary: i g p r)
  case 0
  then have "\<not> i < length qfs" by simp
  then show ?case
    by (subst (1 2 3 4) find_queue_families_loop.simps) simp
next
  case (Suc k)
  then have lt: "i < length qfs" and k: "k = length qfs - Suc i" by simp_all
  have up: "[i..<length qfs] = i # [Suc i..<length qfs]"
    using lt by (simp add: upt_conv_Cons)
  note IH = Suc.hyps(1) [OF k]
  show ?case
    using lt
    by (subst (1 2 3 4) find_queue_families_loop.simps)
       (simp add: Let_def up IH G_def P_def prim_defs)
qed

subsection \<open>The loops over the swapchain arrays\<close>

lemma set_cinfo_update [simp]:
  "set_image_view_cinfo (r\<lparr>trace := t\<rparr>) i = set_image_view_cinfo r i"
  "set_image_view_cinfo (r\<lparr>swapchain_image_views := vs\<rparr>) i = set_image_view_cinfo r i"
  "set_image_view_cinfo (r\<lparr>swapchain_framebuffers := fs\<rparr>) i = set_image_view_cinfo r i"
  "set_framebuffer_cinfo (r\<lparr>trace := t\<rparr>) i = set_framebuffer_cinfo r i"
  "set_framebuffer_cinfo (r\<lparr>swapchain_framebuffers := fs\<rparr>) i = set_framebuffer_cinfo r i"
  by (simp_all add: set_image_view_cinfo_def set_framebuffer_cinfo_def)

lemma take_Suc_update: "i < length xs \<Longrightarrow> take (Suc i) (xs[i := v]) = take i xs @ [v]"
  by (simp add: take_Suc_conv_app_nth)

lemma create_image_views_loop_eq:
  "length (swapchain_image_views r) = unat (swapchain_image_count r) \<Longrightarrow>
   create_image_views_loop drv i r =
     r\<lparr>swapchain_image_views :=
          take i (swapchain_image_views r) @
          map (\<lambda>j. snd (drv_create_image_view drv (set_image_view_cinfo r j)))
            [i..<unat (swapchain_image_count r)] @
          drop (max i (unat (swapchain_image_count r))) (swapchain_image_views r),
        trace := trace r @
          concat (map (\<lambda>j. Call ''vkCreateImageView'' [Image_view_cinfo (set_image_view_cinfo r j)] #
                         check_log (fst (drv_create_image_view drv (set_image_view_cinfo r j)))
                           ''vkCreateImageView( renderer->device, &image_view_cinfo, NULL, &renderer->swapchain_image_views[i] )'')
                    [i..<unat (swapchain_image_count r)])\<rparr>"
proof (induction "unat (swapchain_image_count r) - i" arbitrary: i r)
  case 0
  then have "\<not> i < unat (swapchain_image_count r)" by simp
  then show ?case
    using 0 by (subst create_image_views_loop.simps) (simp add: max_def)
next
  case (Suc k)
  then have lt: "i < unat (swapchain_image_count r)" by simp
  have up: "[i..<unat (swapchain_image_count r)] = i # [Suc i..<unat (swapchain_image_count r)]"
    using lt by (simp add: upt_conv_Cons)
  let ?r1 = "VK_CHECK (fst (drv_create_image_view drv (set_image_view_cinfo r i)))
               ''vkCreateImageView( renderer->device, &image_view_cinfo, NULL, &renderer->swapchain_image_views[i] )''
               ((call ''vkCreateImageView'' [Image_view_cinfo (set_image_view_cinfo r i)] r)
                  \<lparr>swapchain_image_views :=
                     (swapchain_image_views r)
                       [i := snd (drv_create_image_view drv (set_image_view_cinfo r i))]\<rparr>)"
  have k: "k = unat (swapchain_image_count ?r1) - Suc i"
    using Suc.hyps(2) by (simp add: prim_defs)
  have len: "length (swapchain_image_views ?r1) = unat (swapchain_image_count ?r1)"
    using Suc.prems by (simp add: prim_defs)
  note IH = Suc.hyps(1) [OF k len]
  have step: "create_image_views_loop drv i r = create_image_views_loop drv (Suc i) ?r1"
    using lt by (subst create_image_views_loop.simps) (simp add: Let_def)
  show ?case
    unfolding step IH
    using lt Suc.prems
    by (simp add: up prim_defs take_Suc_update max_def)
qed


lemma create_framebuffers_loop_eq:
  "length (swapchain_framebuffers r) = unat (swapchain_image_count r) \<Longrightarrow>
   create_framebuffers_loop drv i r =
     r\<lparr>swapchain_framebuffers :=
          take i (swapchain_framebuffers r) @
          map (\<lambda>j. snd (drv_create_framebuffer drv (set_framebuffer_cinfo r j)))
            [i..<unat (swapchain_image_count r)] @
          drop (max i (unat (swapchain_image_count r))) (swapchain_framebuffers r),
        trace := trace r @
          concat (map (\<lambda>j. Call ''vkCreateFramebuffer'' [Framebuffer_cinfo (set_framebuffer_cinfo r j)] #
                         check_log (fst (drv_create_framebuffer drv (set_framebuffer_cinfo r j)))
                           ''vkCreateFramebuffer( renderer->device, &framebuffer_cinfo, NULL, &renderer->swapchain_framebuffers[i] )'')
                    [i..<unat (swapchain_image_count r)])\<rparr>"
proof (induction "unat (swapchain_image_count r) - i" arbitrary: i r)
  case 0
  then have "\<not> i < unat (swapchain_image_count r)" by simp
  then show ?case
    using 0 by (subst create_framebuffers_loop.simps) (simp add: max_def)
next
  case (Suc k)
  then have lt: "i < unat (swapchain_image_count r)" by simp
  have up: "[i..<unat (swapchain_image_count r)] = i # [Suc i..<unat (swapchain_image_count r)]"
    using lt by (simp add: upt_conv_Cons)
  let ?r1 = "VK_CHECK (fst (drv_create_framebuffer drv (set_framebuffer_cinfo r i)))
               ''vkCreateFramebuffer( renderer->device, &framebuffer_cinfo, NULL, &renderer->swapchain_framebuffers[i] )''
               ((call ''vkCreateFramebuffer'' [Framebuffer_cinfo (set_framebuffer_cinfo r i)] r)
                  \<lparr>swapchain_framebuffers :=
                     (swapchain_framebuffers r)
                       [i := snd (drv_create_framebuffer drv (set_framebuffer_cinfo r i))]\<rparr>)"
  have k: "k = unat (swapchain_image_count ?r1) - Suc i"
    using Suc.hyps(2) by (simp add: prim_defs)
  have len: "length (swapchain_framebuffers ?r1) = unat (swapchain_image_count ?r1)"
    using Suc.prems by (simp add: prim_defs)
  note IH = Suc.hyps(1) [OF k len]
  have step: "create_framebuffers_loop drv i r = create_framebuffers_loop drv (Suc i) ?r1"
    using lt by (subst create_framebuffers_loop.simps) (simp add: Let_def)
  show ?case
    unfolding step IH
    using lt Suc.prems
    by (simp add: up prim_defs take_Suc_update max_def)
qed

lemma destroy_framebuffers_loop_eq:
  "destroy_framebuffers_loop i r =
     r\<lparr>trace := trace r @
          map (\<lambda>j. Call ''vkDestroyFramebuffer'' [Handle (arena_read (swapchain_framebuffers r) j)])
            [i..<unat (swapchain_image_count r)]\<rparr>"
proof (induction "unat (swapchain_image_count r) - i" arbitrary: i r)
  case 0
  then have "\<not> i < unat (swapchain_image_count r)" by simp
  then show ?case
    by (subst destroy_framebuffers_loop.simps) simp
next
  case (Suc k)
  then have lt: "i < unat (swapchain_image_count r)" by simp
  have up: "[i..<unat (swapchain_image_count r)] = i # [Suc i..<unat (swapchain_image_count r)]"
    using lt by (simp add: upt_conv_Cons)
  let ?r1 = "call ''vkDestroyFramebuffer'' [Handle (arena_read (swapchain_framebuffers r) i)] r"
  have k: "k = unat (swapchain_image_count ?r1) - Suc i"
    using Suc.hyps(2) by (simp add: prim_defs)
  note IH = Suc.hyps(1) [OF k]
  have step: "destroy_framebuffers_loop i r = destroy_framebuffers_loop (Suc i) ?r1"
    using lt by (subst destroy_framebuffers_loop.simps) simp
  show ?case
    unfolding step IH by (simp add: up prim_defs)
qed

lemma destroy_image_views_loop_eq:
  "destroy_image_views_loop i r =
     r\<lparr>trace := trace r @
          map (\<lambda>j. Call ''vkDestroyImageView'' [Handle (arena_read (swapchain_image_views r) j)])
            [i..<unat (swapchain_image_count r)]\<rparr>"
proof (induction "unat (swapchain_image_count r) - i" arbitrary: i r)
  case 0
  then have "\<not> i < unat (swapchain_image_count r)" by simp
  then show ?case
    by (subst destroy_image_views_loop.simps) simp
next
  case (Suc k)
  then have lt: "i < unat (swapchain_image_count r)" by simp
  have up: "[i..<unat (swapchain_image_count r)] = i # [Suc i..<unat (swapchain_image_count r)]"
    using lt by (simp add: upt_conv_Cons)
  let ?r1 = "call ''vkDestroyImageView'' [Handle (arena_read (swapchain_image_views r) i)] r"
  have k: "k = unat (swapchain_image_count ?r1) - Suc i"
    using Suc.hyps(2) by (simp add: prim_defs)
  note IH = Suc.hyps(1) [OF k]
  have step: "destroy_image_views_loop i r = destroy_image_views_loop (Suc i) ?r1"
    using lt by (subst destroy_image_views_loop.simps) simp
  show ?case
    unfolding step IH by (simp add: up prim_defs)
qed

lemma call_names_concat_map [simp]:
  "call_names (concat (map (\<lambda>j. Call f (a j) # check_log (c j) e) xs)) = replicate (length xs) f"
  by (induction xs) simp_all

lemma call_names_map [simp]:
  "call_names (map (\<lambda>j. Call f (a j)) xs) = replicate (length xs) f"
  by (induction xs) simp_all

lemma calls_of_concat_map [simp]:
  "calls_of g (concat (map (\<lambda>j. Call f (a j) # check_log (c j) e) xs)) =
     (if g = f then map a xs else [])"
  by (induction xs) simp_all

lemma calls_of_map [simp]:
  "calls_of g (map (\<lambda>j. Call f (a j)) xs) = (if g = f then map a xs else [])"
  by (induction xs) simp_all

lemma map_nth_upt: "map (\<lambda>j. f (xs ! j)) [0..<length xs] = map f xs"
  by (rule nth_equalityI) simp_all

lemma map_arena_read_upt:
  "n = length xs \<Longrightarrow> map (\<lambda>j. f (arena_read xs j)) [0..<n] = map (\<lambda>x. f (Some x)) xs"
  by (rule nth_equalityI) (simp_all add: arena_read_def)

subsection \<open>Images, views and framebuffers\<close>

lemma nh_arena_alloc_length [simp]: "length (nh_arena_alloc n) = n"
  by (simp add: nh_arena_alloc_def)

lemma get_swapchain_images_arrays:
  "swapchain_image_count (renderer_get_swapchain_images drv r) =
     fst (snd (drv_swapchain_images drv (swapchain r)))"
  "swapchain_images (renderer_get_swapchain_images drv r) =
     map (snd (snd (drv_swapchain_images drv (swapchain r))))
       [0..<unat (fst (snd (drv_swapchain_images drv (swapchain r))))]"
  "swapchain_image_views (renderer_get_swapchain_images drv r) =
     map (\<lambda>img. snd (drv_create_image_view drv
             \<lparr>image = Some img,
              view_format = map_option format (surface_format (surface_info r))\<rparr>))
       (swapchain_images (renderer_get_swapchain_images drv r))"
  by (simp_all add: renderer_get_swapchain_images_def Let_def case_prod_beta prim_defs
      create_image_views_loop_eq set_image_view_cinfo_def arena_read_def o_def)

lemma get_swapchain_images_frame:
  "swapchain_framebuffers (renderer_get_swapchain_images drv r) = swapchain_framebuffers r"
  "swapchain (renderer_get_swapchain_images drv r) = swapchain r"
  "surface_info (renderer_get_swapchain_images drv r) = surface_info r"
  "swapchain_extent (renderer_get_swapchain_images drv r) = swapchain_extent r"
  "window (renderer_get_swapchain_images drv r) = window r"
  "queue_family_indices (renderer_get_swapchain_images drv r) = queue_family_indices r"
  "physical_device (renderer_get_swapchain_images drv r) = physical_device r"
  "device (renderer_get_swapchain_images drv r) = device r"
  by (simp_all add: renderer_get_swapchain_images_def Let_def case_prod_beta prim_defs
      create_image_views_loop_eq)

lemma get_swapchain_images_trace:
  "call_names (trace (renderer_get_swapchain_images drv r)) =
     call_names (trace r) @ [''vkGetSwapchainImagesKHR'', ''vkGetSwapchainImagesKHR''] @
     replicate (unat (fst (snd (drv_swapchain_images drv (swapchain r))))) ''vkCreateImageView''"
  "f \<noteq> ''vkGetSwapchainImagesKHR'' \<Longrightarrow> f \<noteq> ''vkCreateImageView'' \<Longrightarrow>
   calls_of f (trace (renderer_get_swapchain_images drv r)) = calls_of f (trace r)"
  by (simp_all add: renderer_get_swapchain_images_def Let_def case_prod_beta prim_defs
      create_image_views_loop_eq)

lemma create_framebuffers_arrays:
  "swapchain_framebuffers (renderer_create_framebuffers drv r) =
     map (\<lambda>j. snd (drv_create_framebuffer drv (set_framebuffer_cinfo r j)))
       [0..<unat (swapchain_image_count r)]"
  by (simp add: renderer_create_framebuffers_def Let_def prim_defs create_framebuffers_loop_eq)

lemma create_framebuffers_aligned:
  "length (swapchain_image_views r) = unat (swapchain_image_count r) \<Longrightarrow>
   swapchain_framebuffers (renderer_create_framebuffers drv r) =
     map (\<lambda>view. snd (drv_create_framebuffer drv
             \<lparr>pAttachments = Some view,
              fb_width = width (swapchain_extent r),
              fb_height = height (swapchain_extent r)\<rparr>))
       (swapchain_image_views r)"
  by (rule nth_equalityI)
     (simp_all add: create_framebuffers_arrays set_framebuffer_cinfo_def arena_read_def)

lemma create_framebuffers_frame:
  "swapchain_image_count (renderer_create_framebuffers drv r) = swapchain_image_count r"
  "swapchain_images (renderer_create_framebuffers drv r) = swapchain_images r"
  "swapchain_image_views (renderer_create_framebuffers drv r) = swapchain_image_views r"
  "swapchain (renderer_create_framebuffers drv r) = swapchain r"
  "surface_info (renderer_create_framebuffers drv r) = surface_info r"
  "swapchain_extent (renderer_create_framebuffers drv r) = swapchain_extent r"
  "window (renderer_create_framebuffers drv r) = window r"
  "queue_family_indices (renderer_create_framebuffers drv r) = queue_family_indices r"
  "physical_device (renderer_create_framebuffers drv r) = physical_device r"
  "device (renderer_create_framebuffers drv r) = device r"
  by (simp_all add: renderer_create_framebuffers_def Let_def prim_defs create_framebuffers_loop_eq)

lemma create_framebuffers_trace:
  "call_names (trace (renderer_create_framebuffers drv r)) =
     call_names (trace r) @ replicate (unat (swapchain_image_count r)) ''vkCreateFramebuffer''"
  "f \<noteq> ''vkCreateFramebuffer'' \<Longrightarrow>
   calls_of f (trace (renderer_create_framebuffers drv r)) = calls_of f (trace r)"
  by (simp_all add: renderer_create_framebuffers_def Let_def prim_defs create_framebuffers_loop_eq)

section \<open>Queue families and \<^verbatim>\<open>create_renderer\<close>\<close>

lemma swapchain_blocks_calls:
  "f \<noteq> ''vkGetPhysicalDeviceSurfaceFormatsKHR'' \<Longrightarrow>
   calls_of f (trace (swapchain_surface_format drv r)) = calls_of f (trace r)"
  "f \<noteq> ''vkGetPhysicalDeviceSurfacePresentModesKHR'' \<Longrightarrow>
   calls_of f (trace (swapchain_present_mode drv r)) = calls_of f (trace r)"
  "f \<noteq> ''vkGetPhysicalDeviceSurfaceCapabilitiesKHR'' \<Longrightarrow>
   calls_of f (trace (swapchain_surface_caps drv r)) = calls_of f (trace r)"
  by (simp_all add: swapchain_surface_format_def swapchain_present_mode_def
      swapchain_surface_caps_def prim_defs Let_def case_prod_beta)

lemma create_swapchain_calls:
  "f \<noteq> ''vkGetPhysicalDeviceSurfaceFormatsKHR'' \<Longrightarrow>
   f \<noteq> ''vkGetPhysicalDeviceSurfacePresentModesKHR'' \<Longrightarrow>
   f \<noteq> ''vkGetPhysicalDeviceSurfaceCapabilitiesKHR'' \<Longrightarrow>
   f \<noteq> ''vkCreateSwapchainKHR'' \<Longrightarrow>
   calls_of f (trace (renderer_create_swapchain drv r)) = calls_of f (trace r)"
  by (simp add: renderer_create_swapchain_def prim_defs Let_def case_prod_beta
      swapchain_blocks_calls)

lemma print_device_extensions_0:
  "print_device_extensions 0 r =
     printf ''INFO: Using device extension %d: %s\<newline>''
       [Arg_u32 0, Arg_str ''VK_KHR_swapchain''] r"
  by (subst print_device_extensions.simps, subst print_device_extensions.simps)
     (simp add: NUM_DEV_EXTS_def dev_extensions_def)

lemma check_device_extensions_0:
  "check_device_extensions supported 0 r =
     (if find_extension ''VK_KHR_swapchain'' supported 0 = length supported
      then exit 1 (printf ''ERROR: Device extension %s not supported\<newline>''
                     [Arg_str ''VK_KHR_swapchain''] r)
      else Inr r)"
  by (subst check_device_extensions.simps, subst check_device_extensions.simps)
     (simp add: NUM_DEV_EXTS_def dev_extensions_def Let_def)

lemma create_logical_device_result:
  "(case renderer_create_logical_device drv r of
      Inl h \<Rightarrow> exit_status h = 1
        \<and> calls_of ''vkCreateDevice'' (exit_trace h) = calls_of ''vkCreateDevice'' (trace r)
    | Inr r' \<Rightarrow>
        calls_of ''vkCreateDevice'' (trace r') =
          calls_of ''vkCreateDevice'' (trace r) @
            [[Word (graphics_family (queue_family_indices r)),
              Word (present_family (queue_family_indices r))]]
        \<and> queue_family_indices r' = queue_family_indices r
        \<and> window r' = window r)"
  by (simp add: renderer_create_logical_device_def Let_def case_prod_beta prim_defs
      print_device_extensions_0 check_device_extensions_0 exit_def)

lemma create_queues_fields:
  "calls_of ''vkCreateDevice'' (trace (renderer_create_queues r)) =
     calls_of ''vkCreateDevice'' (trace r)"
  "queue_family_indices (renderer_create_queues r) = queue_family_indices r"
  "window (renderer_create_queues r) = window r"
  by (simp_all add: renderer_create_queues_def Let_def prim_defs)

lemma find_queue_families_result:
  "(case renderer_find_queue_families drv r of
      Inr r' \<Rightarrow>
        graphics_families drv \<noteq> [] \<and> present_families drv \<noteq> []
        \<and> queue_family_indices r' =
            \<lparr>graphics_family = of_nat (last (graphics_families drv)),
             present_family = of_nat (last (present_families drv)),
             indices = (of_nat (last (graphics_families drv)),
                        of_nat (last (present_families drv)))\<rparr>
        \<and> calls_of ''vkCreateDevice'' (trace r') = calls_of ''vkCreateDevice'' (trace r)
    | Inl h \<Rightarrow>
        (graphics_families drv = [] \<or> present_families drv = [])
        \<and> exit_status h = 1
        \<and> calls_of ''vkCreateDevice'' (exit_trace h) = calls_of ''vkCreateDevice'' (trace r))"
proof -
  let ?r1 = "call ''vkGetPhysicalDeviceQueueFamilyProperties'' []
               (call ''vkGetPhysicalDeviceQueueFamilyProperties'' []
                  (printf ''INFO: Finding queue families...\<newline>'' [] r))"
  note spec = find_queue_families_loop_spec
     [of drv "drv_queue_families drv" 0 False False ?r1,
      folded graphics_families_def present_families_def]
  show ?thesis
    using spec
    by (simp add: renderer_find_queue_families_def Let_def exit_def prim_defs)
qed

lemma create_renderer_result:
  "(case create_renderer drv w r0 of
      Inr r' \<Rightarrow>
        graphics_families drv \<noteq> [] \<and> present_families drv \<noteq> []
        \<and> calls_of ''vkCreateDevice'' (trace r') =
            calls_of ''vkCreateDevice'' (trace r0) @
              [[Word (of_nat (last (graphics_families drv))),
                Word (of_nat (last (present_families drv)))]]
    | Inl h \<Rightarrow>
        exit_status h = 1
        \<and> calls_of ''vkCreateDevice'' (exit_trace h) = calls_of ''vkCreateDevice'' (trace r0))"
proof -
  let ?r2 = "renderer_pick_physical_device drv
               (printf ''INFO: Creating renderer...\<newline>'' [] (r0\<lparr>window := w\<rparr>))"
  have t2: "calls_of ''vkCreateDevice'' (trace ?r2) = calls_of ''vkCreateDevice'' (trace r0)"
    by (simp add: pick_physical_device_calls prim_defs)
  show ?thesis
  proof (cases "renderer_find_queue_families drv ?r2")
    case (Inl h)
    with find_queue_families_result [where drv="drv" and r="?r2"] t2 show ?thesis
      by (simp add: create_renderer_def Let_def)
  next
    case (Inr r3)
    note r3 = this
    with find_queue_families_result [where drv="drv" and r="?r2"] t2
    have f3: "graphics_families drv \<noteq> []" "present_families drv \<noteq> []"
      "graphics_family (queue_family_indices r3) = of_nat (last (graphics_families drv))"
      "present_family (queue_family_indices r3) = of_nat (last (present_families drv))"
      "calls_of ''vkCreateDevice'' (trace r3) = calls_of ''vkCreateDevice'' (trace r0)"
      by simp_all
    show ?thesis
    proof (cases "renderer_create_logical_device drv r3")
      case (Inl h)
      with create_logical_device_result [where drv="drv" and r="r3"] r3 f3 show ?thesis
        by (simp add: create_renderer_def Let_def)
    next
      case (Inr r4)
      with create_logical_device_result [where drv="drv" and r="r3"] r3 f3 show ?thesis
        by (simp add: create_renderer_def Let_def create_framebuffers_trace
            get_swapchain_images_trace create_swapchain_calls create_queues_fields)
    qed
  qed
qed

text \<open>
  Claim C3, as amended. The one loop over the queue families has no \<^verbatim>\<open>break\<close>, so each
  role is resolved to the last family that supports it (the two tests are independent, and
  \<^verbatim>\<open>indices\<close> holds the pair). \<^verbatim>\<open>renderer_find_queue_families\<close> returns only if both roles
  are resolved; otherwise the process exits with status 1, and whenever
  \<^verbatim>\<open>create_renderer\<close> exits it has made no call of \<^verbatim>\<open>vkCreateDevice\<close>. When it returns it
  has made one, with the two resolved families.
\<close>

theorem queue_family_resolution:
  "(case renderer_find_queue_families drv r of
      Inr r' \<Rightarrow>
        graphics_families drv \<noteq> [] \<and> present_families drv \<noteq> []
        \<and> graphics_family (queue_family_indices r') = of_nat (last (graphics_families drv))
        \<and> present_family (queue_family_indices r') = of_nat (last (present_families drv))
        \<and> indices (queue_family_indices r') =
            (of_nat (last (graphics_families drv)), of_nat (last (present_families drv)))
    | Inl h \<Rightarrow>
        (graphics_families drv = [] \<or> present_families drv = [])
        \<and> exit_status h = 1
        \<and> calls_of ''vkCreateDevice'' (exit_trace h) = calls_of ''vkCreateDevice'' (trace r))
   \<and> (case create_renderer drv w r0 of
        Inr r' \<Rightarrow>
          graphics_families drv \<noteq> [] \<and> present_families drv \<noteq> []
          \<and> calls_of ''vkCreateDevice'' (trace r') =
              calls_of ''vkCreateDevice'' (trace r0) @
                [[Word (of_nat (last (graphics_families drv))),
                  Word (of_nat (last (present_families drv)))]]
      | Inl h \<Rightarrow>
          exit_status h = 1
          \<and> calls_of ''vkCreateDevice'' (exit_trace h) = calls_of ''vkCreateDevice'' (trace r0))"
  using find_queue_families_result [where drv="drv" and r="r"] create_renderer_result [where drv="drv" and w="w" and ?r0.0="r0"]
  by (simp split: sum.splits)

lemma example_families:
  "graphics_families example_driver = [0, 1]"
  "present_families example_driver = [0, 1]"
  "graphics_families example_split_driver = [0]"
  "present_families example_split_driver = [1]"
  by (simp_all add: graphics_families_def present_families_def example_driver_def
      example_split_driver_def VK_QUEUE_GRAPHICS_BIT_def upt_rec)

text \<open>
  The claim as stated fails where two families support a role: the driver of the example
  reports families 0 and 1 as supporting both graphics and presentation, and the code
  records family 1 for both roles, not the first family 0.
\<close>

theorem queue_family_last_not_first:
  "(case renderer_find_queue_families example_driver blank_renderer of
      Inl h \<Rightarrow> False
    | Inr r' \<Rightarrow> graphics_family (queue_family_indices r') = 1
        \<and> present_family (queue_family_indices r') = 1)
   \<and> hd (graphics_families example_driver) = 0
   \<and> hd (present_families example_driver) = 0"
  using find_queue_families_result [where drv="example_driver" and r="blank_renderer"]
  by (simp add: example_families split: sum.splits)

text \<open>
  Claim C10. After \<^verbatim>\<open>renderer_find_queue_families\<close> has returned, in any state that still
  holds the queue family indices it resolved, the one swapchain create request uses
  exclusive sharing with a zero index count and no index array exactly when the graphics
  and present families are equal, and otherwise concurrent sharing with the index array
  holding the graphics and the present family.
\<close>

theorem swapchain_sharing_mode:
  assumes "renderer_find_queue_families drv0 r0 = Inr r1"
    and "queue_family_indices r = queue_family_indices r1"
  shows "calls_of ''vkCreateSwapchainKHR'' (trace (renderer_create_swapchain drv r)) =
           calls_of ''vkCreateSwapchainKHR'' (trace r) @
             [[Swapchain_cinfo (set_swapchain_info (renderer_create_swapchain drv r))]]
     \<and> ((imageSharingMode (set_swapchain_info (renderer_create_swapchain drv r))
            = VK_SHARING_MODE_EXCLUSIVE)
          = (graphics_family (queue_family_indices r) = present_family (queue_family_indices r)))
     \<and> (graphics_family (queue_family_indices r) = present_family (queue_family_indices r) \<longrightarrow>
          queueFamilyIndexCount (set_swapchain_info (renderer_create_swapchain drv r)) = 0
          \<and> pQueueFamilyIndices (set_swapchain_info (renderer_create_swapchain drv r)) = [])
     \<and> (graphics_family (queue_family_indices r) \<noteq> present_family (queue_family_indices r) \<longrightarrow>
          imageSharingMode (set_swapchain_info (renderer_create_swapchain drv r))
            = VK_SHARING_MODE_CONCURRENT
          \<and> queueFamilyIndexCount (set_swapchain_info (renderer_create_swapchain drv r)) = 2
          \<and> pQueueFamilyIndices (set_swapchain_info (renderer_create_swapchain drv r)) =
              [graphics_family (queue_family_indices r),
               present_family (queue_family_indices r)])"
proof -
  from assms find_queue_families_result [where drv="drv0" and r="r0"]
  have "indices (queue_family_indices r) =
          (graphics_family (queue_family_indices r), present_family (queue_family_indices r))"
    by simp
  then show ?thesis
    by (simp add: create_swapchain_requests set_swapchain_info_def Let_def
        create_swapchain_fields)
qed

theorem swapchain_sharing_mode_witness:
  "(case renderer_find_queue_families example_driver blank_renderer of
      Inl h \<Rightarrow> False
    | Inr r1 \<Rightarrow>
        imageSharingMode (set_swapchain_info (renderer_create_swapchain example_driver r1))
          = VK_SHARING_MODE_EXCLUSIVE
        \<and> pQueueFamilyIndices (set_swapchain_info (renderer_create_swapchain example_driver r1))
          = [])
   \<and> (case renderer_find_queue_families example_split_driver blank_renderer of
        Inl h \<Rightarrow> False
      | Inr r1 \<Rightarrow>
          imageSharingMode (set_swapchain_info (renderer_create_swapchain example_driver r1))
            = VK_SHARING_MODE_CONCURRENT
          \<and> pQueueFamilyIndices (set_swapchain_info (renderer_create_swapchain example_driver r1))
            = [0, 1])"
proof -
  have a: "case renderer_find_queue_families example_driver blank_renderer of
      Inl h \<Rightarrow> False
    | Inr r1 \<Rightarrow>
        imageSharingMode (set_swapchain_info (renderer_create_swapchain example_driver r1))
          = VK_SHARING_MODE_EXCLUSIVE
        \<and> pQueueFamilyIndices (set_swapchain_info (renderer_create_swapchain example_driver r1))
          = []"
  proof (cases "renderer_find_queue_families example_driver blank_renderer")
    case (Inl h)
    with find_queue_families_result [where drv="example_driver" and r="blank_renderer"] show ?thesis
      by (simp add: example_families)
  next
    case (Inr r1)
    with find_queue_families_result [where drv="example_driver" and r="blank_renderer"]
      swapchain_sharing_mode [OF Inr refl, where drv=example_driver]
    show ?thesis by (simp add: example_families)
  qed
  have b: "case renderer_find_queue_families example_split_driver blank_renderer of
        Inl h \<Rightarrow> False
      | Inr r1 \<Rightarrow>
          imageSharingMode (set_swapchain_info (renderer_create_swapchain example_driver r1))
            = VK_SHARING_MODE_CONCURRENT
          \<and> pQueueFamilyIndices (set_swapchain_info (renderer_create_swapchain example_driver r1))
            = [0, 1]"
  proof (cases "renderer_find_queue_families example_split_driver blank_renderer")
    case (Inl h)
    with find_queue_families_result [where drv="example_split_driver" and r="blank_renderer"] show ?thesis
      by (simp add: example_families)
  next
    case (Inr r1)
    with find_queue_families_result [where drv="example_split_driver" and r="blank_renderer"]
      swapchain_sharing_mode [OF Inr refl, where drv=example_driver]
    show ?thesis by (simp add: example_families)
  qed
  from a b show ?thesis by simp
qed

section \<open>The frame and the rebuild\<close>

lemma record_command_buffer_fields:
  "window (renderer_record_command_buffer drv r idx) = window r"
  "physical_device (renderer_record_command_buffer drv r idx) = physical_device r"
  "device (renderer_record_command_buffer drv r idx) = device r"
  "queue_family_indices (renderer_record_command_buffer drv r idx) = queue_family_indices r"
  "surface_info (renderer_record_command_buffer drv r idx) = surface_info r"
  "swapchain_extent (renderer_record_command_buffer drv r idx) = swapchain_extent r"
  "swapchain (renderer_record_command_buffer drv r idx) = swapchain r"
  "swapchain_image_count (renderer_record_command_buffer drv r idx) = swapchain_image_count r"
  "swapchain_images (renderer_record_command_buffer drv r idx) = swapchain_images r"
  "swapchain_image_views (renderer_record_command_buffer drv r idx) = swapchain_image_views r"
  "swapchain_framebuffers (renderer_record_command_buffer drv r idx) = swapchain_framebuffers r"
  by (simp_all add: renderer_record_command_buffer_def Let_def prim_defs)

lemma record_command_buffer_trace:
  "call_names (trace (renderer_record_command_buffer drv r idx)) =
     call_names (trace r) @
       [''vkBeginCommandBuffer'', ''vkCmdBeginRenderPass'', ''vkCmdBindPipeline'',
        ''vkCmdSetViewport'', ''vkCmdSetScissor'', ''vkCmdDraw'', ''vkCmdEndRenderPass'',
        ''vkEndCommandBuffer'']"
  "f \<notin> {''vkBeginCommandBuffer'', ''vkCmdBeginRenderPass'', ''vkCmdBindPipeline'',
        ''vkCmdSetViewport'', ''vkCmdSetScissor'', ''vkCmdDraw'', ''vkCmdEndRenderPass'',
        ''vkEndCommandBuffer''} \<Longrightarrow>
   calls_of f (trace (renderer_record_command_buffer drv r idx)) = calls_of f (trace r)"
  by (auto simp add: renderer_record_command_buffer_def Let_def prim_defs)

lemma submit_and_present_fields:
  "window (submit_and_present drv idx r) = window r"
  "physical_device (submit_and_present drv idx r) = physical_device r"
  "device (submit_and_present drv idx r) = device r"
  "queue_family_indices (submit_and_present drv idx r) = queue_family_indices r"
  "surface_info (submit_and_present drv idx r) = surface_info r"
  "swapchain_extent (submit_and_present drv idx r) = swapchain_extent r"
  "swapchain (submit_and_present drv idx r) = swapchain r"
  "swapchain_image_count (submit_and_present drv idx r) = swapchain_image_count r"
  "swapchain_images (submit_and_present drv idx r) = swapchain_images r"
  "swapchain_image_views (submit_and_present drv idx r) = swapchain_image_views r"
  "swapchain_framebuffers (submit_and_present drv idx r) = swapchain_framebuffers r"
  by (simp_all add: submit_and_present_def Let_def prim_defs record_command_buffer_fields)

lemma submit_and_present_trace:
  "call_names (trace (submit_and_present drv idx r)) =
     call_names (trace r) @
       [''vkResetFences'', ''vkResetCommandBuffer'',
        ''vkBeginCommandBuffer'', ''vkCmdBeginRenderPass'', ''vkCmdBindPipeline'',
        ''vkCmdSetViewport'', ''vkCmdSetScissor'', ''vkCmdDraw'', ''vkCmdEndRenderPass'',
        ''vkEndCommandBuffer'', ''vkQueueSubmit'', ''vkQueuePresentKHR'']"
  "f \<notin> {''vkResetFences'', ''vkResetCommandBuffer'',
        ''vkBeginCommandBuffer'', ''vkCmdBeginRenderPass'', ''vkCmdBindPipeline'',
        ''vkCmdSetViewport'', ''vkCmdSetScissor'', ''vkCmdDraw'', ''vkCmdEndRenderPass'',
        ''vkEndCommandBuffer'', ''vkQueueSubmit'', ''vkQueuePresentKHR''} \<Longrightarrow>
   calls_of f (trace (submit_and_present drv idx r)) = calls_of f (trace r)"
  by (auto simp add: submit_and_present_def Let_def prim_defs record_command_buffer_fields
      record_command_buffer_trace)

lemma build_swapchain_built_by:
  "swapchain_built_by drv
     (renderer_create_framebuffers drv (renderer_get_swapchain_images drv r))"
  by (simp add: swapchain_built_by_def create_framebuffers_frame get_swapchain_images_arrays
      get_swapchain_images_frame create_framebuffers_aligned)

lemma recreate_swapchain_built_by: "swapchain_built_by drv (recreate_swapchain drv r)"
  by (simp add: recreate_swapchain_def Let_def build_swapchain_built_by)

lemma recreate_swapchain_frame:
  "window (recreate_swapchain drv r) = window r"
  "queue_family_indices (recreate_swapchain drv r) = queue_family_indices r"
  by (simp_all add: recreate_swapchain_def Let_def create_framebuffers_frame
      get_swapchain_images_frame create_swapchain_fields destroy_framebuffers_loop_eq
      destroy_image_views_loop_eq prim_defs)

lemma recreate_swapchain_names:
  "call_names (trace (recreate_swapchain drv r)) =
     call_names (trace r) @ [''vkDeviceWaitIdle''] @
     replicate (unat (swapchain_image_count r)) ''vkDestroyFramebuffer'' @
     replicate (unat (swapchain_image_count r)) ''vkDestroyImageView'' @
     [''vkDestroySwapchainKHR'',
      ''vkGetPhysicalDeviceSurfaceFormatsKHR'', ''vkGetPhysicalDeviceSurfaceFormatsKHR'',
      ''vkGetPhysicalDeviceSurfacePresentModesKHR'', ''vkGetPhysicalDeviceSurfacePresentModesKHR'',
      ''vkGetPhysicalDeviceSurfaceCapabilitiesKHR'', ''vkCreateSwapchainKHR'',
      ''vkGetSwapchainImagesKHR'', ''vkGetSwapchainImagesKHR''] @
     replicate (unat (swapchain_image_count (recreate_swapchain drv r))) ''vkCreateImageView'' @
     replicate (unat (swapchain_image_count (recreate_swapchain drv r))) ''vkCreateFramebuffer''"
  by (simp add: recreate_swapchain_def Let_def create_framebuffers_frame
      create_framebuffers_trace get_swapchain_images_trace get_swapchain_images_arrays
      create_swapchain_fields destroy_framebuffers_loop_eq destroy_image_views_loop_eq prim_defs)

lemma recreate_swapchain_destroys:
  "calls_of ''vkDestroyFramebuffer'' (trace (recreate_swapchain drv r)) =
     calls_of ''vkDestroyFramebuffer'' (trace r) @
       map (\<lambda>j. [Handle (arena_read (swapchain_framebuffers r) j)])
         [0..<unat (swapchain_image_count r)]"
  "calls_of ''vkDestroyImageView'' (trace (recreate_swapchain drv r)) =
     calls_of ''vkDestroyImageView'' (trace r) @
       map (\<lambda>j. [Handle (arena_read (swapchain_image_views r) j)])
         [0..<unat (swapchain_image_count r)]"
  "calls_of ''vkDestroySwapchainKHR'' (trace (recreate_swapchain drv r)) =
     calls_of ''vkDestroySwapchainKHR'' (trace r) @ [[Handle (Some (swapchain r))]]"
  by (simp_all add: recreate_swapchain_def Let_def create_framebuffers_trace
      get_swapchain_images_trace create_swapchain_calls destroy_framebuffers_loop_eq
      destroy_image_views_loop_eq prim_defs)

lemma recreate_swapchain_no_frame_work:
  "f \<in> {''vkResetFences'', ''vkResetCommandBuffer'', ''vkBeginCommandBuffer'',
         ''vkCmdBeginRenderPass'', ''vkCmdDraw'', ''vkQueueSubmit'', ''vkQueuePresentKHR''} \<Longrightarrow>
   calls_of f (trace (recreate_swapchain drv r)) = calls_of f (trace r)"
  by (auto simp add: recreate_swapchain_def Let_def create_framebuffers_trace
      get_swapchain_images_trace create_swapchain_calls destroy_framebuffers_loop_eq
      destroy_image_views_loop_eq prim_defs)

lemma build_after_create:
  "set_swapchain_info (renderer_create_framebuffers drv (renderer_get_swapchain_images drv r)) =
     set_swapchain_info r"
  "swapchain (renderer_create_framebuffers drv (renderer_get_swapchain_images drv r)) =
     swapchain r"
  "calls_of ''vkCreateSwapchainKHR''
     (trace (renderer_create_framebuffers drv (renderer_get_swapchain_images drv r))) =
     calls_of ''vkCreateSwapchainKHR'' (trace r)"
proof -
  show "set_swapchain_info (renderer_create_framebuffers drv (renderer_get_swapchain_images drv r)) =
     set_swapchain_info r"
    by (rule set_swapchain_info_cong)
       (simp_all add: create_framebuffers_frame get_swapchain_images_frame)
qed (simp_all add: create_framebuffers_frame get_swapchain_images_frame
      create_framebuffers_trace get_swapchain_images_trace)

lemma recreate_swapchain_new_handle:
  "swapchain (recreate_swapchain drv r) =
     snd (drv_create_swapchain drv (set_swapchain_info (recreate_swapchain drv r)))"
  unfolding recreate_swapchain_def Let_def build_after_create
  by (rule create_swapchain_handle)

lemma recreate_swapchain_requests:
  "calls_of ''vkCreateSwapchainKHR'' (trace (recreate_swapchain drv r)) =
     calls_of ''vkCreateSwapchainKHR'' (trace r) @
       [[Swapchain_cinfo (set_swapchain_info (recreate_swapchain drv r))]]"
proof -
  let ?r0 = "call ''vkDestroySwapchainKHR''
     [Handle (Some (swapchain (destroy_image_views_loop 0 (destroy_framebuffers_loop 0
        (call ''vkDeviceWaitIdle'' []
           (printf ''INFO: Swapchain out of date, recreating...\<newline>'' [] r))))))]
     (destroy_image_views_loop 0 (destroy_framebuffers_loop 0
        (call ''vkDeviceWaitIdle'' []
           (printf ''INFO: Swapchain out of date, recreating...\<newline>'' [] r))))"
  have r0: "calls_of ''vkCreateSwapchainKHR'' (trace ?r0) =
              calls_of ''vkCreateSwapchainKHR'' (trace r)"
    by (simp add: destroy_framebuffers_loop_eq destroy_image_views_loop_eq prim_defs)
  have "calls_of ''vkCreateSwapchainKHR'' (trace (recreate_swapchain drv r)) =
          calls_of ''vkCreateSwapchainKHR'' (trace ?r0) @
            [[Swapchain_cinfo (set_swapchain_info (recreate_swapchain drv r))]]"
    unfolding recreate_swapchain_def Let_def build_after_create
    by (rule create_swapchain_requests)
  then show ?thesis
    unfolding r0 .
qed

lemma get_swapchain_images_queries:
  "calls_of ''vkGetSwapchainImagesKHR'' (trace (renderer_get_swapchain_images drv r)) =
     calls_of ''vkGetSwapchainImagesKHR'' (trace r) @
       [[Handle (Some (swapchain r))], [Handle (Some (swapchain r))]]"
  by (simp add: renderer_get_swapchain_images_def Let_def case_prod_beta prim_defs
      create_image_views_loop_eq)

lemma recreate_swapchain_queries:
  "calls_of ''vkGetSwapchainImagesKHR'' (trace (recreate_swapchain drv r)) =
     calls_of ''vkGetSwapchainImagesKHR'' (trace r) @
       [[Handle (Some (swapchain (recreate_swapchain drv r)))],
        [Handle (Some (swapchain (recreate_swapchain drv r)))]]"
  by (simp add: recreate_swapchain_def Let_def create_framebuffers_trace
      create_framebuffers_frame get_swapchain_images_frame get_swapchain_images_queries
      create_swapchain_calls destroy_framebuffers_loop_eq destroy_image_views_loop_eq prim_defs)

lemma recreate_swapchain_snapshot:
  "surface_caps (surface_info (recreate_swapchain drv r)) = snd (drv_surface_caps drv)"
  "swapchain_extent (recreate_swapchain drv r) =
     set_extent (snd (drv_surface_caps drv)) (win_size (window r))"
  by (simp_all add: recreate_swapchain_def Let_def create_framebuffers_frame
      get_swapchain_images_frame create_swapchain_fields destroy_framebuffers_loop_eq
      destroy_image_views_loop_eq prim_defs)

lemma result_codes_distinct [simp]:
  "VK_ERROR_OUT_OF_DATE_KHR \<noteq> VK_SUCCESS"
  "VK_SUBOPTIMAL_KHR \<noteq> VK_SUCCESS"
  "VK_SUCCESS \<noteq> VK_ERROR_OUT_OF_DATE_KHR"
  "VK_SUCCESS \<noteq> VK_SUBOPTIMAL_KHR"
  by (simp_all add: VK_SUCCESS_def VK_ERROR_OUT_OF_DATE_KHR_def VK_SUBOPTIMAL_KHR_def)

lemma call_swapchain [simp]: "swapchain (call f args r) = swapchain r"
  by (simp add: call_def)

lemma draw_acquire_stale:
  "fst (drv_acquire_next_image drv) = VK_ERROR_OUT_OF_DATE_KHR
     \<or> fst (drv_acquire_next_image drv) = VK_SUBOPTIMAL_KHR \<Longrightarrow>
   renderer_draw drv r =
     Inr (recreate_swapchain drv
            (call ''vkAcquireNextImageKHR'' [Handle (Some (swapchain r))]
               (call ''vkWaitForFences'' [] r)))"
  by (auto simp add: renderer_draw_def Let_def case_prod_beta call_def)

lemma draw_acquire_fatal:
  "fst (drv_acquire_next_image drv) \<noteq> VK_SUCCESS \<Longrightarrow>
   fst (drv_acquire_next_image drv) \<noteq> VK_ERROR_OUT_OF_DATE_KHR \<Longrightarrow>
   fst (drv_acquire_next_image drv) \<noteq> VK_SUBOPTIMAL_KHR \<Longrightarrow>
   renderer_draw drv r =
     Inl (Exit 1 (trace r @
       [Call ''vkWaitForFences'' [],
        Call ''vkAcquireNextImageKHR'' [Handle (Some (swapchain r))],
        Printf ''ERROR: Failed to acquire swapchain image!\<newline>'' []]))"
  by (simp add: renderer_draw_def Let_def case_prod_beta prim_defs exit_def)

lemma draw_acquired:
  "fst (drv_acquire_next_image drv) = VK_SUCCESS \<Longrightarrow>
   renderer_draw drv r =
     (if drv_queue_present drv = VK_SUCCESS
      then Inr (submit_and_present drv (snd (drv_acquire_next_image drv))
                  (call ''vkAcquireNextImageKHR'' [Handle (Some (swapchain r))]
                     (call ''vkWaitForFences'' [] r)))
      else if drv_queue_present drv = VK_ERROR_OUT_OF_DATE_KHR
              \<or> drv_queue_present drv = VK_SUBOPTIMAL_KHR
      then Inr (recreate_swapchain drv
                  (submit_and_present drv (snd (drv_acquire_next_image drv))
                     (call ''vkAcquireNextImageKHR'' [Handle (Some (swapchain r))]
                        (call ''vkWaitForFences'' [] r))))
      else Inl (Exit 1 (trace
                  (submit_and_present drv (snd (drv_acquire_next_image drv))
                     (call ''vkAcquireNextImageKHR'' [Handle (Some (swapchain r))]
                        (call ''vkWaitForFences'' [] r))) @
                [Printf ''ERROR: Failed to present!\<newline>'' []])))"
  by (simp add: renderer_draw_def Let_def case_prod_beta exit_def printf_def)

text \<open>
  Claim C6. When image acquisition returns out-of-date or suboptimal, \<^verbatim>\<open>renderer_draw\<close>
  returns, and the Vulkan calls it has made are, in this order: the fence wait, the
  acquisition, the device wait-idle, the destruction of every framebuffer, of every image
  view and of the swapchain the renderer held, the calls of \<^verbatim>\<open>renderer_create_swapchain\<close>,
  the two image queries with one view per image, and one framebuffer per image. It has made
  no call that resets the fence, records a draw or submits. The renderer it returns holds
  the handle the driver gave for the one new create request, the capabilities read during
  the rebuild and the extent resolved from them; the two image queries were made on the new
  handle, and the images, views and framebuffers are those the driver gave for it.
\<close>

theorem acquire_stale_rebuilds:
  assumes "fst (drv_acquire_next_image drv) = VK_ERROR_OUT_OF_DATE_KHR
           \<or> fst (drv_acquire_next_image drv) = VK_SUBOPTIMAL_KHR"
    and "length (swapchain_framebuffers r) = unat (swapchain_image_count r)"
    and "length (swapchain_image_views r) = unat (swapchain_image_count r)"
  shows "case renderer_draw drv r of
           Inl h \<Rightarrow> False
         | Inr r' \<Rightarrow>
             call_names (trace r') =
               call_names (trace r) @
               [''vkWaitForFences'', ''vkAcquireNextImageKHR'', ''vkDeviceWaitIdle''] @
               replicate (length (swapchain_framebuffers r)) ''vkDestroyFramebuffer'' @
               replicate (length (swapchain_image_views r)) ''vkDestroyImageView'' @
               [''vkDestroySwapchainKHR'',
                ''vkGetPhysicalDeviceSurfaceFormatsKHR'', ''vkGetPhysicalDeviceSurfaceFormatsKHR'',
                ''vkGetPhysicalDeviceSurfacePresentModesKHR'',
                ''vkGetPhysicalDeviceSurfacePresentModesKHR'',
                ''vkGetPhysicalDeviceSurfaceCapabilitiesKHR'', ''vkCreateSwapchainKHR'',
                ''vkGetSwapchainImagesKHR'', ''vkGetSwapchainImagesKHR''] @
               replicate (unat (swapchain_image_count r')) ''vkCreateImageView'' @
               replicate (unat (swapchain_image_count r')) ''vkCreateFramebuffer''
             \<and> calls_of ''vkDestroyFramebuffer'' (trace r') =
                 calls_of ''vkDestroyFramebuffer'' (trace r) @
                   map (\<lambda>fb. [Handle (Some fb)]) (swapchain_framebuffers r)
             \<and> calls_of ''vkDestroyImageView'' (trace r') =
                 calls_of ''vkDestroyImageView'' (trace r) @
                   map (\<lambda>view. [Handle (Some view)]) (swapchain_image_views r)
             \<and> calls_of ''vkDestroySwapchainKHR'' (trace r') =
                 calls_of ''vkDestroySwapchainKHR'' (trace r) @ [[Handle (Some (swapchain r))]]
             \<and> calls_of ''vkResetFences'' (trace r') = calls_of ''vkResetFences'' (trace r)
             \<and> calls_of ''vkCmdDraw'' (trace r') = calls_of ''vkCmdDraw'' (trace r)
             \<and> calls_of ''vkQueueSubmit'' (trace r') = calls_of ''vkQueueSubmit'' (trace r)
             \<and> calls_of ''vkCreateSwapchainKHR'' (trace r') =
                 calls_of ''vkCreateSwapchainKHR'' (trace r) @
                   [[Swapchain_cinfo (set_swapchain_info r')]]
             \<and> swapchain r' = snd (drv_create_swapchain drv (set_swapchain_info r'))
             \<and> calls_of ''vkGetSwapchainImagesKHR'' (trace r') =
                 calls_of ''vkGetSwapchainImagesKHR'' (trace r) @
                   [[Handle (Some (swapchain r'))], [Handle (Some (swapchain r'))]]
             \<and> surface_caps (surface_info r') = snd (drv_surface_caps drv)
             \<and> swapchain_extent r' =
                 set_extent (snd (drv_surface_caps drv)) (win_size (window r))
             \<and> swapchain_built_by drv r'"
proof -
  let ?r1 = "call ''vkAcquireNextImageKHR'' [Handle (Some (swapchain r))]
               (call ''vkWaitForFences'' [] r)"
  have d: "renderer_draw drv r = Inr (recreate_swapchain drv ?r1)"
    using assms(1) by (rule draw_acquire_stale)
  have fb: "map (\<lambda>j. [Handle (arena_read (swapchain_framebuffers r) j)])
              [0..<unat (swapchain_image_count r)] =
            map (\<lambda>fb. [Handle (Some fb)]) (swapchain_framebuffers r)"
    using assms(2) by (intro map_arena_read_upt) simp
  have vw: "map (\<lambda>j. [Handle (arena_read (swapchain_image_views r) j)])
              [0..<unat (swapchain_image_count r)] =
            map (\<lambda>view. [Handle (Some view)]) (swapchain_image_views r)"
    using assms(3) by (intro map_arena_read_upt) simp
  show ?thesis
    unfolding d
    using fb vw assms(2,3)
    by (simp add: recreate_swapchain_names recreate_swapchain_destroys
        recreate_swapchain_no_frame_work recreate_swapchain_built_by
        recreate_swapchain_requests recreate_swapchain_new_handle [symmetric]
        recreate_swapchain_queries recreate_swapchain_snapshot prim_defs)
qed

lemma replicate_2: "replicate 2 x = [x, x]"
  by (simp add: numeral_2_eq_2)

lemma example_stale_driver_simps [simp]:
  "drv_acquire_next_image example_stale_driver = (VK_SUBOPTIMAL_KHR, 0)"
  "drv_swapchain_images example_stale_driver = (\<lambda>sc. (0, 2, \<lambda>i. 100 + i))"
  "drv_swapchain_images example_driver = (\<lambda>sc. (0, 2, \<lambda>i. 100 + i))"
  by (simp_all add: example_stale_driver_def example_driver_def)

lemma example_renderer_simps [simp]:
  "swapchain_image_count example_renderer = 2"
  "swapchain_images example_renderer = [100, 101]"
  "swapchain_image_views example_renderer = [200, 201]"
  "swapchain_framebuffers example_renderer = [300, 301]"
  "swapchain example_renderer = 30"
  "trace example_renderer = []"
  by (simp_all add: example_renderer_def)

lemma example_resized_simps [simp]:
  "drv_acquire_next_image example_resized_driver = (VK_SUBOPTIMAL_KHR, 0)"
  "drv_create_swapchain example_resized_driver = (\<lambda>ci. (0, 31))"
  "drv_swapchain_images example_resized_driver = (\<lambda>sc. (0, 2, \<lambda>i. 110 + i))"
  "drv_create_image_view example_resized_driver =
     (\<lambda>ci. (0, case image ci of Some h \<Rightarrow> 100 + h | None \<Rightarrow> 0))"
  "drv_create_framebuffer example_resized_driver =
     (\<lambda>ci. (0, case pAttachments ci of Some v \<Rightarrow> 100 + v | None \<Rightarrow> 0))"
  "snd (drv_surface_caps example_resized_driver) =
     example_caps\<lparr>currentExtent := \<lparr>width = 1024, height = 768\<rparr>\<rparr>"
  "swapchain_image_count example_resized_renderer = 2"
  "swapchain_image_views example_resized_renderer = [200, 201]"
  "swapchain_framebuffers example_resized_renderer = [300, 301]"
  "swapchain example_resized_renderer = 30"
  "trace example_resized_renderer = []"
  "win_size (window example_resized_renderer) = \<lparr>vec_x = 1024, vec_y = 768\<rparr>"
  by (simp_all add: example_resized_driver_def example_driver_def example_resized_renderer_def
      example_renderer_def)

text \<open>
  The run of the example: the renderer holds the swapchain 30 with two images for a window
  of 800 x 600, the window has grown to 1024 x 768 and acquisition reports suboptimal. The
  frame destroys the framebuffers 300 and 301, the views 200 and 201 and the swapchain 30,
  and returns with the swapchain 31, its images 110 and 111, their views and framebuffers,
  and the extent 1024 x 768.
\<close>

theorem acquire_stale_rebuilds_witness:
  "(fst (drv_acquire_next_image example_resized_driver) = VK_ERROR_OUT_OF_DATE_KHR
      \<or> fst (drv_acquire_next_image example_resized_driver) = VK_SUBOPTIMAL_KHR)
   \<and> length (swapchain_framebuffers example_resized_renderer)
       = unat (swapchain_image_count example_resized_renderer)
   \<and> length (swapchain_image_views example_resized_renderer)
       = unat (swapchain_image_count example_resized_renderer)
   \<and> swapchain example_resized_renderer = 30
   \<and> (case renderer_draw example_resized_driver example_resized_renderer of
         Inl h \<Rightarrow> False
       | Inr r' \<Rightarrow>
           call_names (trace r') =
             [''vkWaitForFences'', ''vkAcquireNextImageKHR'', ''vkDeviceWaitIdle'',
              ''vkDestroyFramebuffer'', ''vkDestroyFramebuffer'',
              ''vkDestroyImageView'', ''vkDestroyImageView'',
              ''vkDestroySwapchainKHR'',
              ''vkGetPhysicalDeviceSurfaceFormatsKHR'', ''vkGetPhysicalDeviceSurfaceFormatsKHR'',
              ''vkGetPhysicalDeviceSurfacePresentModesKHR'',
              ''vkGetPhysicalDeviceSurfacePresentModesKHR'',
              ''vkGetPhysicalDeviceSurfaceCapabilitiesKHR'', ''vkCreateSwapchainKHR'',
              ''vkGetSwapchainImagesKHR'', ''vkGetSwapchainImagesKHR'',
              ''vkCreateImageView'', ''vkCreateImageView'',
              ''vkCreateFramebuffer'', ''vkCreateFramebuffer'']
           \<and> calls_of ''vkDestroyFramebuffer'' (trace r') =
               [[Handle (Some 300)], [Handle (Some 301)]]
           \<and> calls_of ''vkDestroyImageView'' (trace r') =
               [[Handle (Some 200)], [Handle (Some 201)]]
           \<and> calls_of ''vkDestroySwapchainKHR'' (trace r') = [[Handle (Some 30)]]
           \<and> calls_of ''vkResetFences'' (trace r') = []
           \<and> calls_of ''vkCmdDraw'' (trace r') = []
           \<and> calls_of ''vkQueueSubmit'' (trace r') = []
           \<and> calls_of ''vkCreateSwapchainKHR'' (trace r') =
               [[Swapchain_cinfo (set_swapchain_info r')]]
           \<and> swapchain r' = 31
           \<and> calls_of ''vkGetSwapchainImagesKHR'' (trace r') =
               [[Handle (Some 31)], [Handle (Some 31)]]
           \<and> swapchain_extent r' = \<lparr>width = 1024, height = 768\<rparr>
           \<and> swapchain_image_count r' = 2
           \<and> swapchain_images r' = [110, 111]
           \<and> swapchain_image_views r' = [210, 211]
           \<and> swapchain_framebuffers r' = [310, 311])"
proof -
  have h1: "fst (drv_acquire_next_image example_resized_driver) = VK_ERROR_OUT_OF_DATE_KHR
      \<or> fst (drv_acquire_next_image example_resized_driver) = VK_SUBOPTIMAL_KHR"
    by simp
  have h2: "length (swapchain_framebuffers example_resized_renderer)
       = unat (swapchain_image_count example_resized_renderer)"
    by simp
  have h3: "length (swapchain_image_views example_resized_renderer)
       = unat (swapchain_image_count example_resized_renderer)"
    by simp
  have u: "[0..<unat (2 :: u32)] = [0, 1]"
    by (simp add: upt_rec)
  have e: "set_extent (example_caps\<lparr>currentExtent := \<lparr>width = 1024, height = 768\<rparr>\<rparr>)
             \<lparr>vec_x = 1024, vec_y = 768\<rparr> = \<lparr>width = 1024, height = 768\<rparr>"
    by (simp add: set_extent_def example_caps_def NH_CLAMP_def)
  note th = acquire_stale_rebuilds [OF h1 h2 h3]
  show ?thesis
  proof (cases "renderer_draw example_resized_driver example_resized_renderer")
    case (Inl h)
    with th show ?thesis by simp
  next
    case (Inr r')
    with th have b: "swapchain_built_by example_resized_driver r'" by simp
    then have c: "swapchain_image_count r' = 2"
      by (simp add: swapchain_built_by_def)
    from b have arr: "swapchain_images r' = [110, 111]
        \<and> swapchain_image_views r' = [210, 211] \<and> swapchain_framebuffers r' = [310, 311]"
      unfolding swapchain_built_by_def c u by simp
    from th have sc: "swapchain r' = 31"
      unfolding Inr by simp
    from th c h1 h2 h3 arr sc e show ?thesis
      unfolding Inr by (simp add: replicate_2)
  qed
qed

section \<open>Result codes\<close>




section \<open>The swapchain arrays over the main loop\<close>

lemma create_renderer_built_by:
  "create_renderer drv w r0 = Inr r \<Longrightarrow> swapchain_built_by drv r"
  by (auto simp add: create_renderer_def Let_def build_swapchain_built_by split: sum.splits)

lemma built_by_lengths:
  assumes "swapchain_built_by d r"
  shows "length (swapchain_images r) = unat (swapchain_image_count r)"
    and "length (swapchain_image_views r) = unat (swapchain_image_count r)"
    and "length (swapchain_framebuffers r) = unat (swapchain_image_count r)"
proof -
  from assms have i: "swapchain_images r =
      map (snd (snd (drv_swapchain_images d (swapchain r)))) [0..<unat (swapchain_image_count r)]"
    and v: "length (swapchain_image_views r) = length (swapchain_images r)"
    and f: "length (swapchain_framebuffers r) = length (swapchain_image_views r)"
    by (simp_all add: swapchain_built_by_def)
  from i have "length (swapchain_images r) = length [0..<unat (swapchain_image_count r)]"
    by (metis length_map)
  then show "length (swapchain_images r) = unat (swapchain_image_count r)" by simp
  with v show "length (swapchain_image_views r) = unat (swapchain_image_count r)" by simp
  with f show "length (swapchain_framebuffers r) = unat (swapchain_image_count r)" by simp
qed

lemma built_by_cong:
  "swapchain_image_count a = swapchain_image_count b \<Longrightarrow>
   swapchain_images a = swapchain_images b \<Longrightarrow>
   swapchain_image_views a = swapchain_image_views b \<Longrightarrow>
   swapchain_framebuffers a = swapchain_framebuffers b \<Longrightarrow>
   swapchain a = swapchain b \<Longrightarrow>
   surface_info a = surface_info b \<Longrightarrow>
   swapchain_extent a = swapchain_extent b \<Longrightarrow>
   swapchain_built_by d a = swapchain_built_by d b"
  by (simp add: swapchain_built_by_def)

lemma draw_kept:
  assumes "renderer_draw drv r = Inr r'" and "\<not> takes_rebuild drv"
  shows "r' = submit_and_present drv (snd (drv_acquire_next_image drv))
                (call ''vkAcquireNextImageKHR'' [Handle (Some (swapchain r))]
                   (call ''vkWaitForFences'' [] r))"
proof (cases "fst (drv_acquire_next_image drv) = VK_SUCCESS")
  case True
  with assms show ?thesis
    by (simp add: draw_acquired takes_rebuild_def split: if_splits)
next
  case False
  with assms show ?thesis
    using draw_acquire_fatal [of drv r]
    by (auto simp add: takes_rebuild_def)
qed

lemma draw_rebuilt:
  assumes "takes_rebuild drv"
  shows "renderer_draw drv r =
     Inr (recreate_swapchain drv
       (if fst (drv_acquire_next_image drv) = VK_SUCCESS
        then submit_and_present drv (snd (drv_acquire_next_image drv))
               (call ''vkAcquireNextImageKHR'' [Handle (Some (swapchain r))]
                  (call ''vkWaitForFences'' [] r))
        else call ''vkAcquireNextImageKHR'' [Handle (Some (swapchain r))]
               (call ''vkWaitForFences'' [] r)))"
proof (cases "fst (drv_acquire_next_image drv) = VK_SUCCESS")
  case True
  with assms show ?thesis
    by (auto simp add: draw_acquired takes_rebuild_def)
next
  case False
  with assms show ?thesis
    by (auto simp add: draw_acquire_stale takes_rebuild_def)
qed

lemma draw_step:
  assumes "renderer_draw drv r = Inr r'"
    and "length (swapchain_image_views r) = unat (swapchain_image_count r)"
    and "length (swapchain_framebuffers r) = unat (swapchain_image_count r)"
  shows "if takes_rebuild drv
         then calls_of ''vkDestroyFramebuffer'' (trace r') =
                calls_of ''vkDestroyFramebuffer'' (trace r) @
                  map (\<lambda>fb. [Handle (Some fb)]) (swapchain_framebuffers r)
              \<and> calls_of ''vkDestroyImageView'' (trace r') =
                calls_of ''vkDestroyImageView'' (trace r) @
                  map (\<lambda>view. [Handle (Some view)]) (swapchain_image_views r)
              \<and> calls_of ''vkDestroySwapchainKHR'' (trace r') =
                calls_of ''vkDestroySwapchainKHR'' (trace r) @ [[Handle (Some (swapchain r))]]
              \<and> swapchain_built_by drv r'
         else swapchain_image_count r' = swapchain_image_count r
              \<and> swapchain_images r' = swapchain_images r
              \<and> swapchain_image_views r' = swapchain_image_views r
              \<and> swapchain_framebuffers r' = swapchain_framebuffers r
              \<and> swapchain r' = swapchain r
              \<and> surface_info r' = surface_info r
              \<and> swapchain_extent r' = swapchain_extent r
              \<and> calls_of ''vkDestroyFramebuffer'' (trace r') =
                  calls_of ''vkDestroyFramebuffer'' (trace r)
              \<and> calls_of ''vkDestroyImageView'' (trace r') =
                  calls_of ''vkDestroyImageView'' (trace r)
              \<and> calls_of ''vkCreateImageView'' (trace r') =
                  calls_of ''vkCreateImageView'' (trace r)
              \<and> calls_of ''vkCreateFramebuffer'' (trace r') =
                  calls_of ''vkCreateFramebuffer'' (trace r)"
proof (cases "takes_rebuild drv")
  case False
  with assms(1) have "r' = submit_and_present drv (snd (drv_acquire_next_image drv))
                (call ''vkAcquireNextImageKHR'' [Handle (Some (swapchain r))]
                   (call ''vkWaitForFences'' [] r))"
    by (rule draw_kept)
  with False show ?thesis
    by (simp add: submit_and_present_fields submit_and_present_trace prim_defs)
next
  case True
  have fb: "map (\<lambda>j. [Handle (arena_read (swapchain_framebuffers r) j)])
              [0..<unat (swapchain_image_count r)] =
            map (\<lambda>fb. [Handle (Some fb)]) (swapchain_framebuffers r)"
    using assms(3) by (intro map_arena_read_upt) simp
  have vw: "map (\<lambda>j. [Handle (arena_read (swapchain_image_views r) j)])
              [0..<unat (swapchain_image_count r)] =
            map (\<lambda>view. [Handle (Some view)]) (swapchain_image_views r)"
    using assms(2) by (intro map_arena_read_upt) simp
  from assms(1) draw_rebuilt [OF True, of r] True fb vw show ?thesis
    by (auto simp add: recreate_swapchain_destroys recreate_swapchain_built_by
        submit_and_present_fields submit_and_present_trace prim_defs)
qed

lemma main_loop_built_by: "main_loop_state d r \<Longrightarrow> swapchain_built_by d r"
proof (induction rule: main_loop_state.induct)
  case (created drv w r0 r)
  then show ?case by (rule create_renderer_built_by)
next
  case (polled d r es)
  then show ?case by (simp add: swapchain_built_by_def)
next
  case (drawn d r drv r')
  from drawn.hyps(2,3) built_by_lengths [OF drawn.IH]
  have "swapchain_image_count r' = swapchain_image_count r
      \<and> swapchain_images r' = swapchain_images r
      \<and> swapchain_image_views r' = swapchain_image_views r
      \<and> swapchain_framebuffers r' = swapchain_framebuffers r
      \<and> swapchain r' = swapchain r
      \<and> surface_info r' = surface_info r
      \<and> swapchain_extent r' = swapchain_extent r"
    using draw_step [of drv r r'] by simp
  then have "swapchain_built_by d r' = swapchain_built_by d r"
    by (intro built_by_cong) simp_all
  with drawn.IH show ?case by simp
next
  case (rebuilt d r drv r')
  from rebuilt.hyps(2,3) built_by_lengths [OF rebuilt.IH]
  show ?case
    using draw_step [of drv r r'] by simp
qed

text \<open>
  Claim C8. In every state of the main loop the image, image-view and framebuffer arrays
  have the length \<^verbatim>\<open>swapchain_image_count\<close>, and they are aligned: they are what the
  latest build made of them, where the view at index \<open>i\<close> was created for the image at
  index \<open>i\<close> and the framebuffer at index \<open>i\<close> for the view at index \<open>i\<close>
  (\<open>swapchain_built_by\<close>). A call of \<^verbatim>\<open>renderer_draw\<close> that returns either leaves the count
  and the three arrays as they were and destroys and creates no view or framebuffer, or it
  destroys every framebuffer, every view and the swapchain and builds all three arrays anew.
\<close>

theorem swapchain_arrays_aligned:
  assumes "main_loop_state d r"
  shows "length (swapchain_images r) = unat (swapchain_image_count r)
     \<and> length (swapchain_image_views r) = unat (swapchain_image_count r)
     \<and> length (swapchain_framebuffers r) = unat (swapchain_image_count r)
     \<and> swapchain_built_by d r
     \<and> (\<forall>drv r'. renderer_draw drv r = Inr r' \<longrightarrow>
          (if takes_rebuild drv
           then calls_of ''vkDestroyFramebuffer'' (trace r') =
                  calls_of ''vkDestroyFramebuffer'' (trace r) @
                    map (\<lambda>fb. [Handle (Some fb)]) (swapchain_framebuffers r)
                \<and> calls_of ''vkDestroyImageView'' (trace r') =
                  calls_of ''vkDestroyImageView'' (trace r) @
                    map (\<lambda>view. [Handle (Some view)]) (swapchain_image_views r)
                \<and> calls_of ''vkDestroySwapchainKHR'' (trace r') =
                  calls_of ''vkDestroySwapchainKHR'' (trace r) @ [[Handle (Some (swapchain r))]]
                \<and> swapchain_built_by drv r'
           else swapchain_image_count r' = swapchain_image_count r
                \<and> swapchain_images r' = swapchain_images r
                \<and> swapchain_image_views r' = swapchain_image_views r
                \<and> swapchain_framebuffers r' = swapchain_framebuffers r
                \<and> swapchain r' = swapchain r
                \<and> surface_info r' = surface_info r
                \<and> swapchain_extent r' = swapchain_extent r
                \<and> calls_of ''vkDestroyFramebuffer'' (trace r') =
                    calls_of ''vkDestroyFramebuffer'' (trace r)
                \<and> calls_of ''vkDestroyImageView'' (trace r') =
                    calls_of ''vkDestroyImageView'' (trace r)
                \<and> calls_of ''vkCreateImageView'' (trace r') =
                    calls_of ''vkCreateImageView'' (trace r)
                \<and> calls_of ''vkCreateFramebuffer'' (trace r') =
                    calls_of ''vkCreateFramebuffer'' (trace r)))"
proof -
  from assms have b: "swapchain_built_by d r" by (rule main_loop_built_by)
  note len = built_by_lengths [OF b]
  from len b draw_step [OF _ len(2) len(3)] show ?thesis
    by blast
qed

lemma create_renderer_returns:
  assumes "graphics_families drv \<noteq> []" and "present_families drv \<noteq> []"
    and "find_extension ''VK_KHR_swapchain'' (snd (drv_device_extensions drv)) 0
           \<noteq> length (snd (drv_device_extensions drv))"
  shows "\<exists>r. create_renderer drv w r0 = Inr r"
proof -
  let ?r2 = "renderer_pick_physical_device drv
               (printf ''INFO: Creating renderer...\<newline>'' [] (r0\<lparr>window := w\<rparr>))"
  from assms(1,2) find_queue_families_result [where drv=drv and r="?r2"]
  obtain r3 where r3: "renderer_find_queue_families drv ?r2 = Inr r3"
    by (cases "renderer_find_queue_families drv ?r2") auto
  from assms(3) obtain r4 where r4: "renderer_create_logical_device drv r3 = Inr r4"
    by (simp add: renderer_create_logical_device_def Let_def case_prod_beta
        check_device_extensions_0)
  show ?thesis
    by (simp add: create_renderer_def Let_def r3 r4)
qed

lemma example_driver_simps [simp]:
  "drv_create_image_view example_driver =
     (\<lambda>ci. (0, case image ci of Some h \<Rightarrow> 100 + h | None \<Rightarrow> 0))"
  "drv_create_framebuffer example_driver =
     (\<lambda>ci. (0, case pAttachments ci of Some v \<Rightarrow> 100 + v | None \<Rightarrow> 0))"
  "drv_create_image_view example_stale_driver =
     (\<lambda>ci. (0, case image ci of Some h \<Rightarrow> 100 + h | None \<Rightarrow> 0))"
  "drv_create_framebuffer example_stale_driver =
     (\<lambda>ci. (0, case pAttachments ci of Some v \<Rightarrow> 100 + v | None \<Rightarrow> 0))"
  "drv_acquire_next_image example_driver = (0, 0)"
  "drv_queue_present example_driver = 0"
  "snd (drv_device_extensions example_driver) = [''VK_KHR_swapchain'']"
  by (simp_all add: example_driver_def example_stale_driver_def)

lemma example_built_arrays:
  assumes "swapchain_built_by example_driver r \<or> swapchain_built_by example_stale_driver r"
  shows "swapchain_image_count r = 2 \<and> swapchain_images r = [100, 101]
       \<and> swapchain_image_views r = [200, 201] \<and> swapchain_framebuffers r = [300, 301]"
proof -
  from assms have c: "swapchain_image_count r = 2"
    by (auto simp add: swapchain_built_by_def)
  have u: "[0..<unat (2 :: u32)] = [0, 1]"
    by (simp add: upt_rec)
  from assms show ?thesis
    unfolding swapchain_built_by_def c u by auto
qed

theorem swapchain_arrays_aligned_witness:
  "case create_renderer example_driver example_window blank_renderer of
     Inl h \<Rightarrow> False
   | Inr r \<Rightarrow>
       swapchain_image_count r = 2
       \<and> swapchain_images r = [100, 101]
       \<and> swapchain_image_views r = [200, 201]
       \<and> swapchain_framebuffers r = [300, 301]
       \<and> (case renderer_draw example_driver r of
             Inl h \<Rightarrow> False
           | Inr r' \<Rightarrow>
               swapchain_images r' = [100, 101]
               \<and> swapchain_image_views r' = [200, 201]
               \<and> swapchain_framebuffers r' = [300, 301]
               \<and> calls_of ''vkDestroyFramebuffer'' (trace r') =
                   calls_of ''vkDestroyFramebuffer'' (trace r))
       \<and> (case renderer_draw example_stale_driver r of
             Inl h \<Rightarrow> False
           | Inr r' \<Rightarrow>
               calls_of ''vkDestroyFramebuffer'' (trace r') =
                 calls_of ''vkDestroyFramebuffer'' (trace r) @
                   [[Handle (Some 300)], [Handle (Some 301)]]
               \<and> swapchain_images r' = [100, 101]
               \<and> swapchain_image_views r' = [200, 201]
               \<and> swapchain_framebuffers r' = [300, 301])"
proof -
  have "find_extension ''VK_KHR_swapchain'' (snd (drv_device_extensions example_driver)) 0
          \<noteq> length (snd (drv_device_extensions example_driver))"
    by (simp add: find_extension.simps)
  then obtain r where cr: "create_renderer example_driver example_window blank_renderer = Inr r"
    using create_renderer_returns [where drv=example_driver]
    by (auto simp add: example_families)
  have m: "main_loop_state example_driver r"
    using cr by (rule main_loop_state.created)
  note th = swapchain_arrays_aligned [OF m]
  from th have arr: "swapchain_image_count r = 2 \<and> swapchain_images r = [100, 101]
       \<and> swapchain_image_views r = [200, 201] \<and> swapchain_framebuffers r = [300, 301]"
    by (intro example_built_arrays) simp
  have keep: "\<not> takes_rebuild example_driver"
    by (simp add: takes_rebuild_def VK_SUCCESS_def VK_ERROR_OUT_OF_DATE_KHR_def
        VK_SUBOPTIMAL_KHR_def)
  obtain r1 where d1: "renderer_draw example_driver r = Inr r1"
    by (simp add: draw_acquired VK_SUCCESS_def)
  from th d1 keep arr have k1: "swapchain_images r1 = [100, 101]
       \<and> swapchain_image_views r1 = [200, 201] \<and> swapchain_framebuffers r1 = [300, 301]
       \<and> calls_of ''vkDestroyFramebuffer'' (trace r1) =
           calls_of ''vkDestroyFramebuffer'' (trace r)"
    by auto
  have stale: "takes_rebuild example_stale_driver"
    by (simp add: takes_rebuild_def)
  obtain r2 where d2: "renderer_draw example_stale_driver r = Inr r2"
    using draw_rebuilt [OF stale] by blast
  from th d2 stale arr
  have k2: "calls_of ''vkDestroyFramebuffer'' (trace r2) =
              calls_of ''vkDestroyFramebuffer'' (trace r) @
                [[Handle (Some 300)], [Handle (Some 301)]]"
    and b2: "swapchain_built_by example_stale_driver r2"
    by auto
  from b2 have a2: "swapchain_image_count r2 = 2 \<and> swapchain_images r2 = [100, 101]
       \<and> swapchain_image_views r2 = [200, 201] \<and> swapchain_framebuffers r2 = [300, 301]"
    by (intro example_built_arrays) simp
  from arr k1 k2 a2 show ?thesis
    by (simp add: cr d1 d2)
qed

end
